theory Spec2Isabelle
  imports Main
begin

section \<open>JavaScript values\<close>

text \<open>
  The values the validator reads from the page (results of jQuery's \<open>.data()\<close> and
  \<open>.val()\<close>) and passes between its methods. Numbers are the integer-valued ones
  (of magnitude below \<open>10^21\<close>, so that their string form is the decimal numeral)
  and NaN; strings are lists of code units below 256. Arrays and objects are not
  modelled.
\<close>

datatype jsval = JUndefined | JNull | JBool bool | JNum int | JNaN | JStr string

datatype error = TypeError | Thrown string

text \<open>Sequencing of steps that may raise: the first exception ends the run.\<close>

definition and_then :: "'x + 'a \<Rightarrow> ('a \<Rightarrow> 'x + 'b) \<Rightarrow> 'x + 'b" where
  "and_then r f = (case r of Inl raised \<Rightarrow> Inl raised | Inr y \<Rightarrow> f y)"

text \<open>ToBoolean.\<close>

fun truthy :: "jsval \<Rightarrow> bool" where
  "truthy JUndefined = False"
| "truthy JNull = False"
| "truthy (JBool b) = b"
| "truthy (JNum n) = (n \<noteq> 0)"
| "truthy JNaN = False"
| "truthy (JStr s) = (s \<noteq> [])"

text \<open>Decimal numerals, for ToString of a number.\<close>

definition digit_char :: "nat \<Rightarrow> char" where
  "digit_char d = char_of (48 + d)"

fun nat_to_string :: "nat \<Rightarrow> string" where
  "nat_to_string n =
     (if n < 10 then [digit_char n] else nat_to_string (n div 10) @ [digit_char (n mod 10)])"

definition int_to_string :: "int \<Rightarrow> string" where
  "int_to_string n = (if n < 0 then CHR ''-'' # nat_to_string (nat (- n)) else nat_to_string (nat n))"

text \<open>ToString, as string concatenation with \<open>+\<close> applies it to its operands.\<close>

fun to_string :: "jsval \<Rightarrow> string" where
  "to_string JUndefined = ''undefined''"
| "to_string JNull = ''null''"
| "to_string (JBool b) = (if b then ''true'' else ''false'')"
| "to_string (JNum n) = int_to_string n"
| "to_string JNaN = ''NaN''"
| "to_string (JStr s) = s"

text \<open>
  The operator \<open>+\<close>: when one operand is a string the other is converted to a string
  and the two are joined; otherwise both are converted to numbers and added, and the sum
  is NaN when one of them is \<open>undefined\<close> or NaN. \<open>number_of\<close> is that conversion for
  the values that are not strings, the only ones \<open>js_plus\<close> applies it to.
\<close>

fun number_of :: "jsval \<Rightarrow> int option" where
  "number_of JUndefined = None"
| "number_of JNull = Some 0"
| "number_of (JBool b) = Some (if b then 1 else 0)"
| "number_of (JNum n) = Some n"
| "number_of JNaN = None"
| "number_of (JStr s) = None"

fun js_plus :: "jsval \<Rightarrow> jsval \<Rightarrow> jsval" where
  "js_plus (JStr s) b = JStr (s @ to_string b)"
| "js_plus a (JStr t) = JStr (to_string a @ t)"
| "js_plus a b =
     (case (number_of a, number_of b) of
        (Some m, Some n) \<Rightarrow> JNum (m + n)
      | _ \<Rightarrow> JNaN)"

text \<open>White space of the string-to-number grammar, among the code units below 256.\<close>

definition is_ws :: "char \<Rightarrow> bool" where
  "is_ws c = (of_char c \<in> {9, 10, 11, 12, 13, 32, 160 :: nat})"

definition is_digit :: "char \<Rightarrow> bool" where
  "is_digit c = (48 \<le> (of_char c :: nat) \<and> (of_char c :: nat) \<le> 57)"

definition digit_val :: "char \<Rightarrow> int" where
  "digit_val c = of_char c - 48"

definition digits_to_int :: "string \<Rightarrow> int" where
  "digits_to_int ds = foldl (\<lambda>acc c. 10 * acc + digit_val c) 0 ds"

text \<open>
  \<open>parseInt(x, 10)\<close>: the argument is converted to a string, leading white space is
  skipped, an optional sign is read, then the longest run of decimal digits; no digit
  gives NaN, here \<open>None\<close>.
\<close>

definition parseInt_string :: "string \<Rightarrow> int option" where
  "parseInt_string s =
     (let t = dropWhile is_ws s;
          neg = (t \<noteq> [] \<and> hd t = CHR ''-'');
          u = (if t \<noteq> [] \<and> (hd t = CHR ''-'' \<or> hd t = CHR ''+'') then tl t else t);
          ds = takeWhile is_digit u
      in if ds = [] then None
         else Some (if neg then - digits_to_int ds else digits_to_int ds))"

definition parseInt :: "jsval \<Rightarrow> int option" where
  "parseInt x = parseInt_string (to_string x)"

text \<open>
  Loose equality with the number 0, as in \<open>value != 0\<close>. A string is converted by the
  string-to-number grammar: surrounding white space is dropped; the empty string is 0; a
  signed decimal literal (digits, an optional fraction, an optional exponent) or an
  unsigned literal in base 16, 8 or 2 is its value, rounded to a double; anything else is
  NaN. A decimal \<open>m * 10^e\<close> with \<open>m > 0\<close> rounds to 0 exactly when it is at most
  \<open>2^-1075\<close>, half of the least positive double.
\<close>

definition trim :: "string \<Rightarrow> string" where
  "trim s = rev (dropWhile is_ws (rev (dropWhile is_ws s)))"

definition exponent_part :: "string \<Rightarrow> int option" where
  "exponent_part r =
     (if r = [] then Some 0
      else if hd r = CHR ''e'' \<or> hd r = CHR ''E'' then
        (let t = tl r;
             neg = (t \<noteq> [] \<and> hd t = CHR ''-'');
             u = (if t \<noteq> [] \<and> (hd t = CHR ''-'' \<or> hd t = CHR ''+'') then tl t else t)
         in if u \<noteq> [] \<and> list_all is_digit u
            then Some (if neg then - digits_to_int u else digits_to_int u)
            else None)
      else None)"

definition decimal_is_zero :: "string \<Rightarrow> bool" where
  "decimal_is_zero s =
     (let ip = takeWhile is_digit s;
          r1 = dropWhile is_digit s;
          dot = (r1 \<noteq> [] \<and> hd r1 = CHR ''.'');
          fp = (if dot then takeWhile is_digit (tl r1) else []);
          r2 = (if dot then dropWhile is_digit (tl r1) else r1)
      in if ip = [] \<and> fp = [] then False
         else (case exponent_part r2 of
                 None \<Rightarrow> False
               | Some e \<Rightarrow>
                   (let m = digits_to_int (ip @ fp); e10 = e - int (length fp)
                    in m = 0 \<or> (e10 < 0 \<and> m * 2 ^ 1075 \<le> 10 ^ nat (- e10)))))"

definition nondecimal_is_zero :: "string \<Rightarrow> bool" where
  "nondecimal_is_zero s =
     (case s of
        a # b # ds \<Rightarrow> a = CHR ''0'' \<and> b \<in> set ''xXoObB'' \<and> ds \<noteq> [] \<and> list_all (\<lambda>c. c = CHR ''0'') ds
      | _ \<Rightarrow> False)"

definition string_is_zero :: "string \<Rightarrow> bool" where
  "string_is_zero s =
     (let t = trim s;
          u = (if t \<noteq> [] \<and> (hd t = CHR ''-'' \<or> hd t = CHR ''+'') then tl t else t)
      in t = [] \<or> nondecimal_is_zero t \<or> decimal_is_zero u)"

fun loose_eq_zero :: "jsval \<Rightarrow> bool" where
  "loose_eq_zero JUndefined = False"
| "loose_eq_zero JNull = False"
| "loose_eq_zero (JBool b) = (\<not> b)"
| "loose_eq_zero (JNum n) = (n = 0)"
| "loose_eq_zero JNaN = False"
| "loose_eq_zero (JStr s) = string_is_zero s"

section \<open>Regular expressions\<close>

text \<open>
  \<open>pattern.test(s)\<close> asks whether some part of \<open>s\<close> matches; with the anchors of the
  email pattern this is membership of \<open>s\<close> in a regular language, decided here by
  derivatives.
\<close>

datatype rexp = Zero | One | Sym "char \<Rightarrow> bool" | Alt rexp rexp | Seq rexp rexp | Star rexp

fun nullable :: "rexp \<Rightarrow> bool" where
  "nullable Zero = False"
| "nullable One = True"
| "nullable (Sym p) = False"
| "nullable (Alt r s) = (nullable r \<or> nullable s)"
| "nullable (Seq r s) = (nullable r \<and> nullable s)"
| "nullable (Star r) = True"

fun deriv :: "char \<Rightarrow> rexp \<Rightarrow> rexp" where
  "deriv c Zero = Zero"
| "deriv c One = Zero"
| "deriv c (Sym p) = (if p c then One else Zero)"
| "deriv c (Alt r s) = Alt (deriv c r) (deriv c s)"
| "deriv c (Seq r s) =
     (if nullable r then Alt (Seq (deriv c r) s) (deriv c s) else Seq (deriv c r) s)"
| "deriv c (Star r) = Seq (deriv c r) (Star r)"

definition matches :: "rexp \<Rightarrow> string \<Rightarrow> bool" where
  "matches r s = nullable (foldl (\<lambda>q c. deriv c q) r s)"

definition ch :: "char \<Rightarrow> rexp" where "ch c = Sym (\<lambda>x. x = c)"
definition re_plus :: "rexp \<Rightarrow> rexp" where "re_plus r = Seq r (Star r)"
definition re_opt :: "rexp \<Rightarrow> rexp" where "re_opt r = Alt One r"

fun re_times :: "nat \<Rightarrow> rexp \<Rightarrow> rexp" where
  "re_times 0 r = One"
| "re_times (Suc n) r = Seq r (re_times n r)"

fun re_upto :: "nat \<Rightarrow> rexp \<Rightarrow> rexp" where
  "re_upto 0 r = One"
| "re_upto (Suc n) r = re_opt (Seq r (re_upto n r))"

definition seqs :: "rexp list \<Rightarrow> rexp" where "seqs rs = foldr Seq rs One"
definition alts :: "rexp list \<Rightarrow> rexp" where "alts rs = foldr Alt rs Zero"

definition between :: "char \<Rightarrow> char \<Rightarrow> char \<Rightarrow> bool" where
  "between lo hi c = ((of_char lo :: nat) \<le> of_char c \<and> (of_char c :: nat) \<le> of_char hi)"

text \<open>The classes \<open>\w\<close>, \<open>[\w-]\<close>, \<open>[\w-\s]\<close>, \<open>[a-z]\<close> under the flag \<open>i\<close>, and digit ranges.\<close>

definition is_word :: "char \<Rightarrow> bool" where
  "is_word c = (between CHR ''a'' CHR ''z'' c \<or> between CHR ''A'' CHR ''Z'' c
                \<or> between CHR ''0'' CHR ''9'' c \<or> c = CHR ''_'')"

definition re_w :: rexp where "re_w = Sym is_word"
definition re_wd :: rexp where "re_wd = Sym (\<lambda>c. is_word c \<or> c = CHR ''-'')"
definition re_wds :: rexp where "re_wds = Sym (\<lambda>c. is_word c \<or> c = CHR ''-'' \<or> is_ws c)"
definition re_az :: rexp where
  "re_az = Sym (\<lambda>c. between CHR ''a'' CHR ''z'' c \<or> between CHR ''A'' CHR ''Z'' c)"
definition re_range :: "char \<Rightarrow> char \<Rightarrow> rexp" where "re_range lo hi = Sym (between lo hi)"

text \<open>The parts of the pattern of \<open>Validator.validateEmail\<close>, in the order of the source.\<close>

definition re_quoted :: rexp where
  "re_quoted = seqs [ch (CHR 0x22), re_plus re_wds, ch (CHR 0x22)]"

definition re_dotted :: rexp where
  "re_dotted = Seq (re_plus re_wd) (Star (Seq (ch CHR ''.'') (re_plus re_wd)))"

definition re_local :: rexp where
  "re_local = alts [re_quoted, re_dotted, Seq re_quoted re_dotted]"

definition re_domain :: rexp where
  "re_domain =
     seqs [ch CHR ''@'', Star (Seq (re_plus re_wd) (ch CHR ''.'')), re_w, re_upto 66 re_wd,
           ch CHR ''.'', re_times 2 re_az, re_upto 4 re_az, re_opt (seqs [ch CHR ''.'', re_times 2 re_az])]"

definition re_octet :: rexp where
  "re_octet =
     alts [seqs [ch CHR ''2'', ch CHR ''5'', re_range CHR ''0'' CHR ''5''],
           seqs [ch CHR ''2'', re_range CHR ''0'' CHR ''4'', re_range CHR ''0'' CHR ''9''],
           seqs [ch CHR ''1'', re_times 2 (re_range CHR ''0'' CHR ''9'')],
           seqs [re_range CHR ''0'' CHR ''9'', re_upto 1 (re_range CHR ''0'' CHR ''9'')]]"

definition re_address :: rexp where
  "re_address =
     seqs [ch CHR ''@'', re_opt (ch CHR ''[''), Seq re_octet (ch CHR ''.''),
           re_times 2 (Seq re_octet (ch CHR ''.'')), re_octet, re_opt (ch CHR '']'')]"

text \<open>
  The pattern is \<open>^local domain$ | address$\<close>: the first alternative is anchored at both
  ends, the second only at the end, so any text may precede it.
\<close>

definition validateEmail :: "string \<Rightarrow> bool" where
  "validateEmail email =
     (matches (Seq re_local re_domain) email
      \<or> matches (Seq (Star (Sym (\<lambda>c. True))) re_address) email)"

section \<open>The page\<close>

text \<open>
  An inner control of a field (an \<open>input\<close>, a \<open>textarea\<close>): its \<open>type\<close> attribute,
  what \<open>.val()\<close> returns, the \<open>:checked\<close> and \<open>:visible\<close> states and the values of
  \<open>.data(key)\<close>, by key.
\<close>

record control =
  ctype :: string
  cvalue :: string
  checked :: bool
  visible :: bool
  cdata :: "(string \<times> jsval) list"

text \<open>
  An element inside the form that may be a field container: its classes, its
  \<open>.data(key)\<close> values, its descendant \<open>input\<close>, \<open>textarea\<close> and \<open>select\<close> controls in
  document order (a select is held as the value its \<open>.val()\<close> returns) and the text of each
  descendant of class \<open>error\<close>. Field containers are not nested in one another.
\<close>

record element =
  classes :: "string list"
  edata :: "(string \<times> jsval) list"
  inputs :: "control list"
  textareas :: "control list"
  selects :: "jsval list"
  errors :: "string list"

record form =
  fclasses :: "string list"
  elements :: "element list"
  inModal :: bool

text \<open>jQuery's \<open>hasClass\<close>, \<open>addClass\<close>, \<open>removeClass\<close> on a class list, and \<open>.data(key)\<close>.\<close>

definition hasClass :: "string \<Rightarrow> string list \<Rightarrow> bool" where
  "hasClass c cs = (c \<in> set cs)"

definition addClass :: "string \<Rightarrow> string list \<Rightarrow> string list" where
  "addClass c cs = (if c \<in> set cs then cs else cs @ [c])"

definition removeClass :: "string \<Rightarrow> string list \<Rightarrow> string list" where
  "removeClass c cs = filter (\<lambda>x. x \<noteq> c) cs"

definition data_get :: "(string \<times> jsval) list \<Rightarrow> string \<Rightarrow> jsval" where
  "data_get d key = (case map_of d key of None \<Rightarrow> JUndefined | Some v \<Rightarrow> v)"

text \<open>
  A jQuery object over field containers is the list of their positions in the form. A
  position outside the form stands for the empty collection: reading from it gives
  \<open>undefined\<close> or nothing, writing to it does nothing.
\<close>

definition empty_collection :: element where
  "empty_collection =
     \<lparr>classes = [], edata = [], inputs = [], textareas = [], selects = [], errors = []\<rparr>"

definition field_of :: "form \<Rightarrow> nat \<Rightarrow> element" where
  "field_of frm i = (if i < length (elements frm) then elements frm ! i else empty_collection)"

definition update_field :: "nat \<Rightarrow> (element \<Rightarrow> element) \<Rightarrow> form \<Rightarrow> form" where
  "update_field i f frm = frm\<lparr>elements := (elements frm)[i := f (field_of frm i)]\<rparr>"

definition find_elements :: "(element \<Rightarrow> bool) \<Rightarrow> form \<Rightarrow> nat list" where
  "find_elements sel frm = filter (\<lambda>i. sel (elements frm ! i)) [0..<length (elements frm)]"

text \<open>
  \<open>.text(value)\<close> on one element: with \<open>undefined\<close> jQuery reads instead of writing, so
  the text stays; \<open>null\<close> empties it; any other value is written as a string.
\<close>

fun set_text :: "jsval \<Rightarrow> string \<Rightarrow> string" where
  "set_text JUndefined old = old"
| "set_text JNull old = []"
| "set_text v old = to_string v"

section \<open>The validator\<close>

text \<open>The message catalog of one language; a key the source's literal lacks is \<open>undefined\<close>.\<close>

record catalog =
  emptyField :: string
  incorrectPhone :: string
  incorrectEmail :: string
  incorrectSelect :: string
  symbols :: jsval
  symbol :: jsval
  reqFieldLength :: string
  maxFieldLength :: string
  minFieldLength :: string
  minMaxFieldLength_first :: string
  minMaxFieldLength_second :: string
  notEqual :: string

text \<open>
  The calls of a pass, in order: what it does besides changing the page.
\<close>

datatype hook_name = BeforeValidation | OnValid | AfterValidation

datatype event =
    RemovedIncorrectState
  | ValidatedField nat
  | Called hook_name
  | Warned string
  | AjaxSent "(string \<times> jsval) list"

text \<open>
  A callback option: a function or any other value. The function is called with the
  instance, so it may change the page, assign to the callback options of the instance
  (which \<open>sendIfValidated\<close> reads again after each callback) and call the instance's
  methods itself. Its result is the page as it leaves it, the assignments
  \<open>options.name = callback\<close> it made, in order, and the calls it made; \<open>Inl\<close> when
  it throws, with the exception. The other options are read by a pass before its first
  callback runs, so a change to them does not bear on the rest of that pass.
\<close>

datatype callback =
    CbFunction "form \<Rightarrow> (error \<times> form \<times> (hook_name \<times> callback) list \<times> event list)
                        + (form \<times> (hook_name \<times> callback) list \<times> event list)"
  | CbValue jsval

type_synonym effect = "form \<times> (hook_name \<times> callback) list \<times> event list"

text \<open>\<open>typeof callback === 'function'\<close>.\<close>

fun is_function :: "callback \<Rightarrow> bool" where
  "is_function (CbFunction f) = True"
| "is_function (CbValue x) = False"

text \<open>
  The options of an instance. The selector is the test it stands for on an element;
  \<open>modal\<close> and \<open>removeErrorOnFocusOut\<close> are read for truthiness only; \<open>ajax\<close> is the
  settings object, \<open>None\<close> for a falsy value.
\<close>

record options =
  modal :: bool
  fieldsSelector :: "element \<Rightarrow> bool"
  removeErrorOnFocusOut :: bool
  ajax :: "(string \<times> jsval) list option"
  lang :: string
  beforeValidation :: callback
  afterValidation :: callback
  onValid :: callback

text \<open>What \<open>init\<close> does at construction, in order.\<close>

datatype init_effect = BindOnClickValidation | BindOnModalClose | WarnNoModal | BindOnFocusOut

record validator =
  v_options :: options
  v_lang :: "(string \<times> catalog) list"
  v_init :: "init_effect list"

text \<open>The constants of \<open>DEFAULTS\<close>.\<close>

definition DEFAULTS_incorrect :: string where "DEFAULTS_incorrect = ''incorrect''"
definition DEFAULTS_formIsValid :: string where "DEFAULTS_formIsValid = ''validated''"
definition DEFAULTS_dataType :: string where "DEFAULTS_dataType = ''validation-type''"
definition DEFAULTS_textDataName :: string where "DEFAULTS_textDataName = ''validation-text''"
definition DEFAULTS_dataCondition :: string where "DEFAULTS_dataCondition = ''validation-condition''"
definition DEFAULTS_textType :: string where "DEFAULTS_textType = ''text''"
definition DEFAULTS_phoneType :: string where "DEFAULTS_phoneType = ''phone''"
definition DEFAULTS_emailType :: string where "DEFAULTS_emailType = ''email''"
definition DEFAULTS_radioType :: string where "DEFAULTS_radioType = ''radio''"
definition DEFAULTS_selectType :: string where "DEFAULTS_selectType = ''select''"
definition DEFAULTS_length :: string where "DEFAULTS_length = ''length''"
definition DEFAULTS_equal :: string where "DEFAULTS_equal = ''equal''"
definition DEFAULTS_requiredToValidate :: string where "DEFAULTS_requiredToValidate = ''required''"

text \<open>
  \<open>this.lang[this.options.lang]\<close> on the object literal of the two catalogs: the catalog
  under an own key; for a name that every object inherits from \<open>Object.prototype\<close>, the
  inherited member, which has none of the catalog's keys; otherwise \<open>undefined\<close>, here
  \<open>None\<close>.
\<close>

definition inherited_names :: "string list" where
  "inherited_names =
     [''constructor'', ''hasOwnProperty'', ''isPrototypeOf'', ''propertyIsEnumerable'',
      ''toLocaleString'', ''toString'', ''valueOf'', ''__proto__'', ''__defineGetter__'',
      ''__defineSetter__'', ''__lookupGetter__'', ''__lookupSetter__'']"

datatype lang_entry = Catalog catalog | Inherited

definition lookup_lang :: "validator \<Rightarrow> lang_entry option" where
  "lookup_lang v =
     (case map_of (v_lang v) (lang (v_options v)) of
        Some c \<Rightarrow> Some (Catalog c)
      | None \<Rightarrow> if lang (v_options v) \<in> set inherited_names then Some Inherited else None)"

text \<open>
  Reading a message \<open>lang.key\<close>: it raises when \<open>lang\<close> is \<open>undefined\<close> and gives
  \<open>undefined\<close> on an inherited member. Reading \<open>lang.minMaxFieldLength.first\<close> or
  \<open>.second\<close> raises on an inherited member too, which has no \<open>minMaxFieldLength\<close>.
\<close>

definition lang_prop :: "lang_entry option \<Rightarrow> (catalog \<Rightarrow> jsval) \<Rightarrow> error + jsval" where
  "lang_prop l sel =
     (case l of
        None \<Rightarrow> Inl TypeError
      | Some Inherited \<Rightarrow> Inr JUndefined
      | Some (Catalog c) \<Rightarrow> Inr (sel c))"

definition lang_minMaxFieldLength ::
  "lang_entry option \<Rightarrow> (catalog \<Rightarrow> string) \<Rightarrow> error + jsval" where
  "lang_minMaxFieldLength l sel =
     (case l of
        Some (Catalog c) \<Rightarrow> Inr (JStr (sel c))
      | _ \<Rightarrow> Inl TypeError)"

subsection \<open>formIsValid, removeIncorrectState, throwError, checkFieldValidness\<close>

definition formIsValid :: "form \<Rightarrow> bool" where
  "formIsValid frm =
     (let incorrectFields = find_elements (\<lambda>e. hasClass DEFAULTS_incorrect (classes e)) frm
      in \<not> (length incorrectFields \<noteq> 0) \<and> hasClass DEFAULTS_formIsValid (fclasses frm))"

definition removeClass_each :: "string \<Rightarrow> nat list \<Rightarrow> form \<Rightarrow> form" where
  "removeClass_each c idxs frm =
     fold (\<lambda>i. update_field i (\<lambda>e. e\<lparr>classes := removeClass c (classes e)\<rparr>)) idxs frm"

definition removeIncorrectState :: "validator \<Rightarrow> form \<Rightarrow> form" where
  "removeIncorrectState v frm =
     (let formFields = find_elements (fieldsSelector (v_options v)) frm
      in removeClass_each DEFAULTS_incorrect formFields frm)"

definition throwError :: "nat \<Rightarrow> jsval \<Rightarrow> form \<Rightarrow> form" where
  "throwError field errorText frm =
     update_field field
       (\<lambda>e. e\<lparr>classes := addClass DEFAULTS_incorrect (classes e),
               errors := map (set_text errorText) (errors e)\<rparr>) frm"

definition checkFieldValidness ::
  "validator \<Rightarrow> nat \<Rightarrow> jsval \<Rightarrow> jsval \<Rightarrow> nat \<Rightarrow> form \<Rightarrow> error + form" where
  "checkFieldValidness v field condition errorText valueLength frm =
     (let dataText = data_get (edata (field_of frm field)) DEFAULTS_textDataName;
          l = lookup_lang v;
          errorText' = (case dataText of
                          JStr s \<Rightarrow> if s \<noteq> [] then dataText else errorText
                        | _ \<Rightarrow> errorText)
      in if \<not> (valueLength \<noteq> 0) then
           and_then (lang_prop l (\<lambda>c. JStr (emptyField c))) (\<lambda>m. Inr (throwError field m frm))
         else if \<not> truthy condition then Inr (throwError field errorText' frm)
         else Inr (frm\<lparr>fclasses := addClass DEFAULTS_formIsValid (fclasses frm)\<rparr>))"

subsection \<open>The two catalogs\<close>

text \<open>
  The Russian messages are held as the UTF-8 bytes of the source's literals; the code
  only concatenates and displays them. The English catalog has a key \<open>symbol\<close> where
  the Russian one has \<open>symbols\<close>, so \<open>lang.symbols\<close> is \<open>undefined\<close> in English.
\<close>

definition ru_emptyField :: string where
  "ru_emptyField =
     [CHR 0xD0, CHR 0x97, CHR 0xD0, CHR 0xB0, CHR 0xD0, CHR 0xBF, CHR 0xD0, CHR 0xBE,
      CHR 0xD0, CHR 0xBB, CHR 0xD0, CHR 0xBD, CHR 0xD0, CHR 0xB8, CHR 0xD1, CHR 0x82,
      CHR 0xD0, CHR 0xB5, CHR 0x20, CHR 0xD0, CHR 0xBF, CHR 0xD0, CHR 0xBE, CHR 0xD0,
      CHR 0xBB, CHR 0xD0, CHR 0xB5]"

definition ru_incorrectPhone :: string where
  "ru_incorrectPhone =
     [CHR 0xD0, CHR 0x92, CHR 0xD0, CHR 0xB2, CHR 0xD0, CHR 0xB5, CHR 0xD0, CHR 0xB4,
      CHR 0xD0, CHR 0xB8, CHR 0xD1, CHR 0x82, CHR 0xD0, CHR 0xB5, CHR 0x20, CHR 0xD0,
      CHR 0xBA, CHR 0xD0, CHR 0xBE, CHR 0xD1, CHR 0x80, CHR 0xD1, CHR 0x80, CHR 0xD0,
      CHR 0xB5, CHR 0xD0, CHR 0xBA, CHR 0xD1, CHR 0x82, CHR 0xD0, CHR 0xBD, CHR 0xD1,
      CHR 0x8B, CHR 0xD0, CHR 0xB9, CHR 0x20, CHR 0xD0, CHR 0xBD, CHR 0xD0, CHR 0xBE,
      CHR 0xD0, CHR 0xBC, CHR 0xD0, CHR 0xB5, CHR 0xD1, CHR 0x80]"

definition ru_incorrectEmail :: string where
  "ru_incorrectEmail =
     [CHR 0xD0, CHR 0x92, CHR 0xD0, CHR 0xB2, CHR 0xD0, CHR 0xB5, CHR 0xD0, CHR 0xB4,
      CHR 0xD0, CHR 0xB8, CHR 0xD1, CHR 0x82, CHR 0xD0, CHR 0xB5, CHR 0x20, CHR 0xD0,
      CHR 0xBA, CHR 0xD0, CHR 0xBE, CHR 0xD1, CHR 0x80, CHR 0xD1, CHR 0x80, CHR 0xD0,
      CHR 0xB5, CHR 0xD0, CHR 0xBA, CHR 0xD1, CHR 0x82, CHR 0xD0, CHR 0xBD, CHR 0xD1,
      CHR 0x8B, CHR 0xD0, CHR 0xB9, CHR 0x20, CHR 0x45, CHR 0x6D, CHR 0x61, CHR 0x69,
      CHR 0x6C]"

definition ru_incorrectSelect :: string where
  "ru_incorrectSelect =
     [CHR 0xD0, CHR 0x92, CHR 0xD1, CHR 0x8B, CHR 0xD0, CHR 0xB1, CHR 0xD0, CHR 0xB5,
      CHR 0xD1, CHR 0x80, CHR 0xD0, CHR 0xB8, CHR 0xD1, CHR 0x82, CHR 0xD0, CHR 0xB5,
      CHR 0x20, CHR 0xD0, CHR 0xBE, CHR 0xD0, CHR 0xB4, CHR 0xD0, CHR 0xB8, CHR 0xD0,
      CHR 0xBD, CHR 0x20, CHR 0xD0, CHR 0xB8, CHR 0xD0, CHR 0xB7, CHR 0x20, CHR 0xD0,
      CHR 0xB2, CHR 0xD0, CHR 0xB0, CHR 0xD1, CHR 0x80, CHR 0xD0, CHR 0xB8, CHR 0xD0,
      CHR 0xB0, CHR 0xD0, CHR 0xBD, CHR 0xD1, CHR 0x82, CHR 0xD0, CHR 0xBE, CHR 0xD0,
      CHR 0xB2]"

definition ru_symbols :: string where
  "ru_symbols =
     [CHR 0xD1, CHR 0x81, CHR 0xD0, CHR 0xB8, CHR 0xD0, CHR 0xBC, CHR 0xD0, CHR 0xB2,
      CHR 0xD0, CHR 0xBE, CHR 0xD0, CHR 0xBB, CHR 0xD0, CHR 0xBE, CHR 0xD0, CHR 0xB2]"

definition ru_reqFieldLength :: string where
  "ru_reqFieldLength =
     [CHR 0xD0, CHR 0x9D, CHR 0xD0, CHR 0xB5, CHR 0xD0, CHR 0xBE, CHR 0xD0, CHR 0xB1,
      CHR 0xD1, CHR 0x85, CHR 0xD0, CHR 0xBE, CHR 0xD0, CHR 0xB4, CHR 0xD0, CHR 0xB8,
      CHR 0xD0, CHR 0xBC, CHR 0xD0, CHR 0xB0, CHR 0xD1, CHR 0x8F, CHR 0x20, CHR 0xD0,
      CHR 0xB4, CHR 0xD0, CHR 0xBB, CHR 0xD0, CHR 0xB8, CHR 0xD0, CHR 0xBD, CHR 0xD0,
      CHR 0xBD, CHR 0xD0, CHR 0xB0, CHR 0x20, CHR 0xD0, CHR 0xBF, CHR 0xD0, CHR 0xBE,
      CHR 0xD0, CHR 0xBB, CHR 0xD1, CHR 0x8F, CHR 0x20, CHR 0x2D, CHR 0x20]"

definition ru_maxFieldLength :: string where
  "ru_maxFieldLength =
     [CHR 0xD0, CHR 0x9C, CHR 0xD0, CHR 0xB0, CHR 0xD0, CHR 0xBA, CHR 0xD1, CHR 0x81,
      CHR 0xD0, CHR 0xB8, CHR 0xD0, CHR 0xBC, CHR 0xD0, CHR 0xB0, CHR 0xD0, CHR 0xBB,
      CHR 0xD1, CHR 0x8C, CHR 0xD0, CHR 0xBD, CHR 0xD0, CHR 0xB0, CHR 0xD1, CHR 0x8F,
      CHR 0x20, CHR 0xD0, CHR 0xB4, CHR 0xD0, CHR 0xBB, CHR 0xD0, CHR 0xB8, CHR 0xD0,
      CHR 0xBD, CHR 0xD0, CHR 0xBD, CHR 0xD0, CHR 0xB0, CHR 0x20, CHR 0xD0, CHR 0xBF,
      CHR 0xD0, CHR 0xBE, CHR 0xD0, CHR 0xBB, CHR 0xD1, CHR 0x8F, CHR 0x20, CHR 0x2D,
      CHR 0x20]"

definition ru_minFieldLength :: string where
  "ru_minFieldLength =
     [CHR 0xD0, CHR 0x9C, CHR 0xD0, CHR 0xB8, CHR 0xD0, CHR 0xBD, CHR 0xD0, CHR 0xB8,
      CHR 0xD0, CHR 0xBC, CHR 0xD0, CHR 0xB0, CHR 0xD0, CHR 0xBB, CHR 0xD1, CHR 0x8C,
      CHR 0xD0, CHR 0xBD, CHR 0xD0, CHR 0xB0, CHR 0xD1, CHR 0x8F, CHR 0x20, CHR 0xD0,
      CHR 0xB4, CHR 0xD0, CHR 0xBB, CHR 0xD0, CHR 0xB8, CHR 0xD0, CHR 0xBD, CHR 0xD0,
      CHR 0xBD, CHR 0xD0, CHR 0xB0, CHR 0x20, CHR 0xD0, CHR 0xBF, CHR 0xD0, CHR 0xBE,
      CHR 0xD0, CHR 0xBB, CHR 0xD1, CHR 0x8F, CHR 0x20, CHR 0x2D, CHR 0x20]"

definition ru_minMaxFieldLength_first :: string where
  "ru_minMaxFieldLength_first =
     [CHR 0xD0, CHR 0x9A, CHR 0xD0, CHR 0xBE, CHR 0xD0, CHR 0xBB, CHR 0x2D, CHR 0xD0,
      CHR 0xB2, CHR 0xD0, CHR 0xBE, CHR 0x20, CHR 0xD1, CHR 0x81, CHR 0xD0, CHR 0xB8,
      CHR 0xD0, CHR 0xBC, CHR 0xD0, CHR 0xB2, CHR 0xD0, CHR 0xBE, CHR 0xD0, CHR 0xBB,
      CHR 0xD0, CHR 0xBE, CHR 0xD0, CHR 0xB2, CHR 0x20, CHR 0xD0, CHR 0xB4, CHR 0xD0,
      CHR 0xBE, CHR 0xD0, CHR 0xBB, CHR 0xD0, CHR 0xB6, CHR 0xD0, CHR 0xBD, CHR 0xD0,
      CHR 0xBE, CHR 0x20, CHR 0xD0, CHR 0xB1, CHR 0xD1, CHR 0x8B, CHR 0xD1, CHR 0x82,
      CHR 0xD1, CHR 0x8C, CHR 0x20, CHR 0xD0, CHR 0xBD, CHR 0xD0, CHR 0xB5, CHR 0x20,
      CHR 0xD0, CHR 0xB1, CHR 0xD0, CHR 0xBE, CHR 0xD0, CHR 0xBB, CHR 0xD0, CHR 0xB5,
      CHR 0xD0, CHR 0xB5, CHR 0x20]"

definition ru_minMaxFieldLength_second :: string where
  "ru_minMaxFieldLength_second =
     [CHR 0x20, CHR 0xD0, CHR 0xB8, CHR 0x20, CHR 0xD0, CHR 0xBD, CHR 0xD0, CHR 0xB5,
      CHR 0x20, CHR 0xD0, CHR 0xBC, CHR 0xD0, CHR 0xB5, CHR 0xD0, CHR 0xBD, CHR 0xD0,
      CHR 0xB5, CHR 0xD0, CHR 0xB5, CHR 0x20]"

definition ru_notEqual :: string where
  "ru_notEqual =
     [CHR 0xD0, CHR 0x97, CHR 0xD0, CHR 0xBD, CHR 0xD0, CHR 0xB0, CHR 0xD1, CHR 0x87,
      CHR 0xD0, CHR 0xB5, CHR 0xD0, CHR 0xBD, CHR 0xD0, CHR 0xB8, CHR 0xD0, CHR 0xB5,
      CHR 0x20, CHR 0xD0, CHR 0xBF, CHR 0xD0, CHR 0xBE, CHR 0xD0, CHR 0xBB, CHR 0xD1,
      CHR 0x8F, CHR 0x20, CHR 0xD0, CHR 0xBD, CHR 0xD0, CHR 0xB5, CHR 0x20, CHR 0xD1,
      CHR 0x81, CHR 0xD0, CHR 0xBE, CHR 0xD0, CHR 0xB2, CHR 0xD0, CHR 0xBF, CHR 0xD0,
      CHR 0xB0, CHR 0xD0, CHR 0xBB, CHR 0xD0, CHR 0xBE, CHR 0x20, CHR 0xD1, CHR 0x81,
      CHR 0x20, CHR 0xD0, CHR 0xBE, CHR 0xD0, CHR 0xB6, CHR 0xD0, CHR 0xB8, CHR 0xD0,
      CHR 0xB4, CHR 0xD0, CHR 0xB0, CHR 0xD0, CHR 0xB5, CHR 0xD0, CHR 0xBC, CHR 0xD1,
      CHR 0x8B, CHR 0xD0, CHR 0xBC]"

definition ru_catalog :: catalog where
  "ru_catalog =
     \<lparr>emptyField = ru_emptyField, incorrectPhone = ru_incorrectPhone,
      incorrectEmail = ru_incorrectEmail, incorrectSelect = ru_incorrectSelect,
      symbols = JStr ru_symbols, symbol = JUndefined,
      reqFieldLength = ru_reqFieldLength, maxFieldLength = ru_maxFieldLength,
      minFieldLength = ru_minFieldLength,
      minMaxFieldLength_first = ru_minMaxFieldLength_first,
      minMaxFieldLength_second = ru_minMaxFieldLength_second,
      notEqual = ru_notEqual\<rparr>"

definition en_catalog :: catalog where
  "en_catalog =
     \<lparr>emptyField = ''Fill in the field, please'',
      incorrectPhone = ''Please, enter a valid number'',
      incorrectEmail = ''Please, enter a valid email'',
      incorrectSelect = ''Please, select an option'',
      symbols = JUndefined, symbol = JStr ''symbols'',
      reqFieldLength = ''Required field length is - '',
      maxFieldLength = ''Maximum field length is - '',
      minFieldLength = ''Minimum field length is - '',
      minMaxFieldLength_first = ''Number of characters should be less than '',
      minMaxFieldLength_second = '' but not less than '',
      notEqual = ''The field value did not match with the expected value''\<rparr>"

subsection \<open>Validation of one field\<close>

record fieldParams =
  condition :: jsval
  errorText :: jsval
  length_fp :: nat

text \<open>\<open>.val()\<close> and \<open>.data(key)\<close> of a collection of controls read its first element.\<close>

definition val :: "control list \<Rightarrow> string option" where
  "val cs = (case cs of [] \<Rightarrow> None | c # _ \<Rightarrow> Some (cvalue c))"

definition data_of :: "control list \<Rightarrow> string \<Rightarrow> jsval" where
  "data_of cs key = (case cs of [] \<Rightarrow> JUndefined | c # _ \<Rightarrow> data_get (cdata c) key)"

text \<open>
  The result is the pair of \<open>condition\<close> and \<open>errorText\<close> the switch leaves; both are
  declared without a value, so a branch that assigns nothing leaves \<open>undefined\<close>.
\<close>

definition validateTextField :: "validator \<Rightarrow> nat \<Rightarrow> form \<Rightarrow> error + fieldParams" where
  "validateTextField v field frm =
     (let l = lookup_lang v;
          fld = field_of frm field;
          input = (if length (inputs fld) \<noteq> 0 then inputs fld else textareas fld)
      in case val input of
           None \<Rightarrow> Inl TypeError
         | Some value \<Rightarrow>
            (let valueLength = length value;
                 conditionType = data_of input DEFAULTS_dataCondition
             in and_then
                 (if conditionType = JStr DEFAULTS_length then
                    (let len = data_of input ''length'';
                         maxLength = data_of input ''max-length'';
                         minLength = data_of input ''min-length''
                     in if truthy len then
                          and_then (lang_prop l (\<lambda>c. JStr (reqFieldLength c))) (\<lambda>req.
                          and_then (lang_prop l symbols) (\<lambda>sym.
                            Inr (JBool (Some (int valueLength) = parseInt len),
                                 js_plus (js_plus (js_plus req len) (JStr '' '')) sym)))
                        else
                          (let maxLengthCondition =
                                 (case parseInt maxLength of None \<Rightarrow> False
                                  | Some m \<Rightarrow> int valueLength \<le> m);
                               minLengthCondition =
                                 (case parseInt minLength of None \<Rightarrow> False
                                  | Some m \<Rightarrow> int valueLength \<ge> m)
                           in if truthy maxLength \<and> truthy minLength then
                                and_then (lang_minMaxFieldLength l minMaxFieldLength_first) (\<lambda>first.
                                and_then (lang_minMaxFieldLength l minMaxFieldLength_second) (\<lambda>second.
                                  Inr (JBool (maxLengthCondition \<and> minLengthCondition),
                                       js_plus (js_plus (js_plus first maxLength) second) minLength)))
                              else if truthy maxLength then
                                and_then (lang_prop l (\<lambda>c. JStr (maxFieldLength c))) (\<lambda>mx.
                                and_then (lang_prop l symbols) (\<lambda>sym.
                                  Inr (JBool maxLengthCondition,
                                       js_plus (js_plus (js_plus mx maxLength) (JStr '' '')) sym)))
                              else if truthy minLength then
                                and_then (lang_prop l (\<lambda>c. JStr (minFieldLength c))) (\<lambda>mn.
                                and_then (lang_prop l symbols) (\<lambda>sym.
                                  Inr (JBool minLengthCondition,
                                       js_plus (js_plus (js_plus mn minLength) (JStr '' '')) sym)))
                              else Inr (JUndefined, JUndefined)))
                  else if conditionType = JStr DEFAULTS_equal then
                    (let neededValue = data_of input DEFAULTS_equal
                     in and_then (lang_prop l (\<lambda>c. JStr (notEqual c))) (\<lambda>ne.
                          Inr (JBool (JStr value = neededValue), ne)))
                  else Inr (JUndefined, JUndefined))
                 (\<lambda>(cnd, txt). Inr \<lparr>condition = cnd, errorText = txt, length_fp = valueLength\<rparr>)))"

text \<open>
  \<open>pattern.test(value)\<close> converts its argument to a string, so an absent input is tested
  as the text \<open>undefined\<close> before \<open>value.length\<close> raises. The result carries no
  \<open>errorText\<close>.
\<close>

definition validateEmailField :: "nat \<Rightarrow> form \<Rightarrow> error + fieldParams" where
  "validateEmailField field frm =
     (let value = val (inputs (field_of frm field));
          cnd = validateEmail (case value of None \<Rightarrow> ''undefined'' | Some s \<Rightarrow> s)
      in case value of
           None \<Rightarrow> Inl TypeError
         | Some s \<Rightarrow> Inr \<lparr>condition = JBool cnd, errorText = JUndefined, length_fp = length s\<rparr>)"

definition validateRadioField :: "nat \<Rightarrow> form \<Rightarrow> bool" where
  "validateRadioField field frm =
     (let checkedVisibleRadio =
            filter (\<lambda>c. ctype c = ''radio'' \<and> checked c \<and> visible c) (inputs (field_of frm field))
      in length checkedVisibleRadio \<ge> 1)"

text \<open>\<open>value && value != 0\<close> is \<open>value\<close> itself when that is falsy.\<close>

definition validateSelectField :: "nat \<Rightarrow> form \<Rightarrow> fieldParams" where
  "validateSelectField field frm =
     (let value = (case selects (field_of frm field) of [] \<Rightarrow> JUndefined | s # _ \<Rightarrow> s);
          cnd = (if truthy value then JBool (\<not> loose_eq_zero value) else value)
      in \<lparr>condition = cnd, errorText = JUndefined, length_fp = 1\<rparr>)"

definition validateField :: "validator \<Rightarrow> nat \<Rightarrow> form \<Rightarrow> error + form" where
  "validateField v field frm =
     (let l = lookup_lang v;
          type = data_get (edata (field_of frm field)) DEFAULTS_dataType
      in and_then (lang_prop l (\<lambda>c. JStr (emptyField c))) (\<lambda>empty.
           and_then
             (let fieldParams = \<lparr>condition = JBool True, errorText = empty, length_fp = 1\<rparr>
              in if type = JStr DEFAULTS_textType then validateTextField v field frm
                 else if type = JStr DEFAULTS_phoneType then
                   and_then (validateTextField v field frm) (\<lambda>fp.
                     and_then (lang_prop l (\<lambda>c. JStr (incorrectPhone c)))
                       (\<lambda>m. Inr (fp\<lparr>errorText := m\<rparr>)))
                 else if type = JStr DEFAULTS_emailType then
                   and_then (validateEmailField field frm) (\<lambda>fp.
                     and_then (lang_prop l (\<lambda>c. JStr (incorrectEmail c)))
                       (\<lambda>m. Inr (fp\<lparr>errorText := m\<rparr>)))
                 else if type = JStr DEFAULTS_radioType then
                   Inr (fieldParams\<lparr>condition := JBool (validateRadioField field frm)\<rparr>)
                 else if type = JStr DEFAULTS_selectType then
                   and_then (lang_prop l (\<lambda>c. JStr (incorrectSelect c))) (\<lambda>m.
                     Inr ((validateSelectField field frm)\<lparr>errorText := m\<rparr>))
                 else Inr fieldParams)
             (\<lambda>fp. checkFieldValidness v field (condition fp) (errorText fp) (length_fp fp) frm)))"

subsection \<open>The validation pass\<close>

text \<open>
  The state of a pass: the instance \<open>this\<close>, whose callback options a callback may
  reassign, the page \<open>this.$form\<close> shows, and the calls made so far, kept to state the
  order of the steps. An exception does not undo what was done before it: a step that
  raises gives \<open>Inl\<close> of the exception and the state at that moment.
\<close>

record world =
  self :: validator
  page :: form
  calls :: "event list"

definition record_call :: "event \<Rightarrow> world \<Rightarrow> world" where
  "record_call e w = w\<lparr>calls := calls w @ [e]\<rparr>"

fun assign :: "hook_name \<times> callback \<Rightarrow> options \<Rightarrow> options" where
  "assign (BeforeValidation, c) opts = opts\<lparr>beforeValidation := c\<rparr>"
| "assign (OnValid, c) opts = opts\<lparr>onValid := c\<rparr>"
| "assign (AfterValidation, c) opts = opts\<lparr>afterValidation := c\<rparr>"

text \<open>The state after the call of a callback function: the call, then what the function did.\<close>

definition apply_effect :: "hook_name \<Rightarrow> effect \<Rightarrow> world \<Rightarrow> world" where
  "apply_effect tag r w =
     (case r of
        (p, assigned, made) \<Rightarrow>
          w\<lparr>self := (self w)\<lparr>v_options := fold assign assigned (v_options (self w))\<rparr>,
            page := p,
            calls := calls w @ Called tag # made\<rparr>)"

text \<open>
  The tag names the option the callback was read from, for the record of calls only.
  \<open>callback != undefined\<close> is false for \<open>null\<close> and \<open>undefined\<close> alone.
\<close>

definition checkAndRunCallback ::
  "hook_name \<Rightarrow> callback \<Rightarrow> world \<Rightarrow> (error \<times> world) + world" where
  "checkAndRunCallback tag callback w =
     (case callback of
        CbFunction f \<Rightarrow>
          (case f (page w) of
             Inl (e, r) \<Rightarrow> Inl (e, apply_effect tag r w)
           | Inr r \<Rightarrow> Inr (apply_effect tag r w))
      | CbValue x \<Rightarrow>
          if x \<noteq> JUndefined \<and> x \<noteq> JNull
          then Inr (record_call (Warned ''Callback should be a function.'') w)
          else Inr w)"

text \<open>
  The inner function \<open>formIsValidCallback\<close> of \<open>sendIfValidated\<close>, with the
  \<open>ajaxOptions\<close> it closes over.
\<close>

definition formIsValidCallback ::
  "(string \<times> jsval) list option \<Rightarrow> world \<Rightarrow> (error \<times> world) + world" where
  "formIsValidCallback ajaxOptions w =
     and_then (checkAndRunCallback OnValid (onValid (v_options (self w))) w) (\<lambda>w1.
       Inr (case ajaxOptions of Some a \<Rightarrow> record_call (AjaxSent a) w1 | None \<Rightarrow> w1))"

text \<open>
  \<open>options\<close> is the options object of the instance, so each \<open>options.name\<close> is read
  from the instance as the callbacks before it have left it; \<open>ajaxOptions\<close> is fixed
  before the first callback.
\<close>

definition sendIfValidated ::
  "(string \<times> jsval) list option \<Rightarrow> world \<Rightarrow> (error \<times> world) + world" where
  "sendIfValidated ajaxOptions w =
     (let ajaxOptions' =
            (case ajaxOptions of Some a \<Rightarrow> Some a | None \<Rightarrow> ajax (v_options (self w)))
      in and_then
           (checkAndRunCallback BeforeValidation (beforeValidation (v_options (self w))) w) (\<lambda>w1.
         and_then (if formIsValid (page w1) then formIsValidCallback ajaxOptions' w1 else Inr w1)
           (\<lambda>w2.
         checkAndRunCallback AfterValidation (afterValidation (v_options (self w2))) w2)))"

text \<open>
  The loop of \<open>$formFields.each\<close>. A field evaluation that raises does so before it
  writes anything, so the page at the exception is the page before that field.
\<close>

fun each_field :: "nat list \<Rightarrow> world \<Rightarrow> (error \<times> world) + world" where
  "each_field [] w = Inr w"
| "each_field (field # rest) w =
     (let requiredToValidate =
            (data_get (edata (field_of (page w) field)) ''validation''
               = JStr DEFAULTS_requiredToValidate)
      in if requiredToValidate then
           (case validateField (self w) field (page w) of
              Inl e \<Rightarrow> Inl (e, w)
            | Inr p \<Rightarrow> each_field rest (record_call (ValidatedField field) (w\<lparr>page := p\<rparr>)))
         else each_field rest w)"

definition validateAllFields :: "world \<Rightarrow> (error \<times> world) + world" where
  "validateAllFields w =
     (let formFields = find_elements (fieldsSelector (v_options (self w))) (page w)
      in each_field formFields w)"

text \<open>The state after the first link of the chain, \<open>removeIncorrectState()\<close>.\<close>

definition reset :: "world \<Rightarrow> world" where
  "reset w = record_call RemovedIncorrectState (w\<lparr>page := removeIncorrectState (self w) (page w)\<rparr>)"

definition runFormValidation :: "world \<Rightarrow> (error \<times> world) + world" where
  "runFormValidation w = and_then (validateAllFields (reset w)) (sendIfValidated None)"

subsection \<open>Construction\<close>

text \<open>
  The options object passed by the caller: \<open>None\<close> is a key that is absent or
  \<open>undefined\<close>, which \<open>$.extend\<close> does not copy over the default.
\<close>

record user_options =
  u_modal :: "bool option"
  u_fieldsSelector :: "(element \<Rightarrow> bool) option"
  u_removeErrorOnFocusOut :: "bool option"
  u_ajax :: "(string \<times> jsval) list option option"
  u_lang :: "string option"
  u_beforeValidation :: "callback option"
  u_afterValidation :: "callback option"
  u_onValid :: "callback option"

definition extend_value :: "'a \<Rightarrow> 'a option \<Rightarrow> 'a" where
  "extend_value dflt u = (case u of None \<Rightarrow> dflt | Some x \<Rightarrow> x)"

definition extend_callback :: "callback \<Rightarrow> callback option \<Rightarrow> callback" where
  "extend_callback dflt u =
     (case u of None \<Rightarrow> dflt | Some (CbValue JUndefined) \<Rightarrow> dflt | Some c \<Rightarrow> c)"

definition extend_options :: "user_options \<Rightarrow> options" where
  "extend_options u =
     \<lparr>modal = extend_value False (u_modal u),
      fieldsSelector = extend_value (\<lambda>e. hasClass ''form-input'' (classes e)) (u_fieldsSelector u),
      removeErrorOnFocusOut = extend_value False (u_removeErrorOnFocusOut u),
      ajax = extend_value (Some []) (u_ajax u),
      lang = extend_value ''en'' (u_lang u),
      beforeValidation = extend_callback (CbValue JNull) (u_beforeValidation u),
      afterValidation = extend_callback (CbValue JNull) (u_afterValidation u),
      onValid = extend_callback (CbValue JNull) (u_onValid u)\<rparr>"

definition init :: "form \<Rightarrow> validator \<Rightarrow> validator" where
  "init frm this =
     this\<lparr>v_init :=
       [BindOnClickValidation]
       @ (if modal (v_options this)
          then (if \<not> inModal frm then [WarnNoModal] else [BindOnModalClose]) else [])
       @ (if removeErrorOnFocusOut (v_options this) then [BindOnFocusOut] else [])\<rparr>"

text \<open>No step of the constructor raises; the language tag is stored as given.\<close>

definition Validator :: "form \<Rightarrow> user_options \<Rightarrow> error + validator" where
  "Validator frm opts =
     Inr (init frm \<lparr>v_options = extend_options opts,
                    v_lang = [(''ru'', ru_catalog), (''en'', en_catalog)],
                    v_init = []\<rparr>)"

section \<open>Example pages\<close>

definition no_options :: user_options where
  "no_options =
     \<lparr>u_modal = None, u_fieldsSelector = None, u_removeErrorOnFocusOut = None, u_ajax = None,
      u_lang = None, u_beforeValidation = None, u_afterValidation = None, u_onValid = None\<rparr>"

text \<open>The instance \<open>new Validator(form)\<close> builds when no option is given.\<close>

definition en_validator :: validator where
  "en_validator =
     \<lparr>v_options = extend_options no_options,
      v_lang = [(''ru'', ru_catalog), (''en'', en_catalog)],
      v_init = [BindOnClickValidation]\<rparr>"

definition text_input :: "string \<Rightarrow> (string \<times> jsval) list \<Rightarrow> control" where
  "text_input s d = \<lparr>ctype = ''text'', cvalue = s, checked = False, visible = True, cdata = d\<rparr>"

text \<open>
  A required text field \<open><label class="form-input" data-validation="required"
  data-validation-type="text"><input type="text"><div class="error"></div></label>\<close>
  with the given input value, the given data attributes on the input and the given text
  in its error element.
\<close>

definition text_field :: "string \<Rightarrow> (string \<times> jsval) list \<Rightarrow> string \<Rightarrow> element" where
  "text_field s d msg =
     \<lparr>classes = [''form-input''],
      edata = [(''validation'', JStr ''required''), (''validation-type'', JStr ''text'')],
      inputs = [text_input s d], textareas = [], selects = [], errors = [msg]\<rparr>"

text \<open>
  A form that was found valid before, and the same form with a field that kept its mark
  and message from an earlier pass and a marked element outside the selector.
\<close>

definition valid_form :: form where
  "valid_form =
     \<lparr>fclasses = [''validated''], elements = [text_field ''abc'' [] []], inModal = False\<rparr>"

definition marked_form :: form where
  "marked_form =
     \<lparr>fclasses = [''validated''],
      elements = [(text_field [] [] ''Fill in the field, please'')
                    \<lparr>classes := [''form-input'', ''incorrect'', ''wide'']\<rparr>,
                  (text_field [] [] ''old'')\<lparr>classes := [''incorrect'']\<rparr>],
      inModal = False\<rparr>"

text \<open>
  A form with one required text field that carries the custom text \<open>X\<close> and the
  condition \<open>equal\<close> to \<open>foo\<close>; forms with one required select, with one required
  group of two radios (the first checked and visible as given), and with one required
  text field without custom text.
\<close>

definition custom_form :: "string \<Rightarrow> form" where
  "custom_form s =
     \<lparr>fclasses = [],
      elements = [(text_field s [(''validation-condition'', JStr ''equal''), (''equal'', JStr ''foo'')] ''old'')
                    \<lparr>edata := [(''validation'', JStr ''required''), (''validation-type'', JStr ''text''),
                               (''validation-text'', JStr ''X'')]\<rparr>],
      inModal = False\<rparr>"

definition select_form :: "jsval \<Rightarrow> form" where
  "select_form x =
     \<lparr>fclasses = [],
      elements = [\<lparr>classes = [''form-input''],
                   edata = [(''validation'', JStr ''required''), (''validation-type'', JStr ''select'')],
                   inputs = [], textareas = [], selects = [x], errors = [[]]\<rparr>],
      inModal = False\<rparr>"

definition radio_form :: "bool \<Rightarrow> bool \<Rightarrow> form" where
  "radio_form c vis =
     \<lparr>fclasses = [],
      elements = [\<lparr>classes = [''form-input''],
                   edata = [(''validation'', JStr ''required''), (''validation-type'', JStr ''radio'')],
                   inputs = [\<lparr>ctype = ''radio'', cvalue = ''a'', checked = c, visible = vis, cdata = []\<rparr>,
                             \<lparr>ctype = ''radio'', cvalue = ''b'', checked = False, visible = True, cdata = []\<rparr>],
                   textareas = [], selects = [], errors = [''old'']\<rparr>],
      inModal = False\<rparr>"

definition text_form :: "string \<Rightarrow> (string \<times> jsval) list \<Rightarrow> form" where
  "text_form s d = \<lparr>fclasses = [], elements = [text_field s d ''old''], inModal = False\<rparr>"

text \<open>
  \<open>page_only g\<close> is a callback that changes the page by \<open>g\<close> and does nothing else.
  An instance whose three callbacks are functions that return without touching the page;
  a form that carries the valid flag and whose only field is not required; a form whose
  required text field has neither an \<open>input\<close> nor a \<open>textarea\<close>.
\<close>

definition page_only :: "(form \<Rightarrow> form) \<Rightarrow> callback" where
  "page_only g = CbFunction (\<lambda>p. Inr (g p, [], []))"

definition hooks_validator :: validator where
  "hooks_validator =
     \<lparr>v_options = extend_options
         (no_options\<lparr>u_beforeValidation := Some (page_only (\<lambda>p. p)),
                      u_afterValidation := Some (page_only (\<lambda>p. p)),
                      u_onValid := Some (page_only (\<lambda>p. p))\<rparr>),
      v_lang = [(''ru'', ru_catalog), (''en'', en_catalog)],
      v_init = [BindOnClickValidation]\<rparr>"

definition stale_form :: form where
  "stale_form =
     \<lparr>fclasses = [''validated''],
      elements = [(text_field ''abc'' [] [])\<lparr>edata := [(''validation-type'', JStr ''text'')]\<rparr>],
      inModal = False\<rparr>"

definition broken_form :: form where
  "broken_form =
     \<lparr>fclasses = [], elements = [(text_field [] [] [])\<lparr>inputs := []\<rparr>], inModal = False\<rparr>"

text \<open>
  An instance with an \<open>afterValidation\<close> callback only; an instance whose
  \<open>beforeValidation\<close> callback clears the option \<open>afterValidation\<close>; a select form
  that carries the valid flag; an instance whose \<open>onValid\<close> callback throws, and an
  instance whose \<open>beforeValidation\<close> callback writes on the form whether it finds it
  valid.
\<close>

definition after_only_validator :: validator where
  "after_only_validator =
     \<lparr>v_options = extend_options (no_options\<lparr>u_afterValidation := Some (page_only (\<lambda>p. p))\<rparr>),
      v_lang = [(''ru'', ru_catalog), (''en'', en_catalog)],
      v_init = [BindOnClickValidation]\<rparr>"

definition clearing_validator :: validator where
  "clearing_validator =
     \<lparr>v_options = extend_options
         (no_options\<lparr>u_beforeValidation :=
                        Some (CbFunction (\<lambda>p. Inr (p, [(AfterValidation, CbValue JNull)], []))),
                      u_afterValidation := Some (page_only (\<lambda>p. p))\<rparr>),
      v_lang = [(''ru'', ru_catalog), (''en'', en_catalog)],
      v_init = [BindOnClickValidation]\<rparr>"

definition flagged_select_form :: "jsval \<Rightarrow> form" where
  "flagged_select_form x = (select_form x)\<lparr>fclasses := [''validated'']\<rparr>"

definition throwing_validator :: validator where
  "throwing_validator =
     \<lparr>v_options = extend_options
         (no_options\<lparr>u_afterValidation := Some (page_only (\<lambda>p. p)),
                      u_onValid := Some (CbFunction (\<lambda>p. Inl (Thrown ''stop'', p, [], [])))\<rparr>),
      v_lang = [(''ru'', ru_catalog), (''en'', en_catalog)],
      v_init = [BindOnClickValidation]\<rparr>"

definition observing_validator :: validator where
  "observing_validator =
     \<lparr>v_options = extend_options
         (no_options\<lparr>u_beforeValidation :=
            Some (page_only (\<lambda>p. p\<lparr>fclasses :=
                    addClass (if formIsValid p then ''seen-valid'' else ''seen-invalid'')
                      (fclasses p)\<rparr>))\<rparr>),
      v_lang = [(''ru'', ru_catalog), (''en'', en_catalog)],
      v_init = [BindOnClickValidation]\<rparr>"

section \<open>Properties\<close>

subsection \<open>Elements and collections\<close>

lemma elements_update_field [simp]:
  "length (elements (update_field i f frm)) = length (elements frm)"
  by (simp add: update_field_def)

lemma fclasses_update_field [simp]: "fclasses (update_field i f frm) = fclasses frm"
  by (simp add: update_field_def)

lemma inModal_update_field [simp]: "inModal (update_field i f frm) = inModal frm"
  by (simp add: update_field_def)

lemma nth_update_field:
  "j < length (elements frm) \<Longrightarrow>
   elements (update_field i f frm) ! j = (if j = i then f (elements frm ! j) else elements frm ! j)"
  by (simp add: update_field_def field_of_def nth_list_update)

lemma find_elements_empty:
  "(find_elements sel frm = []) = (\<forall>e \<in> set (elements frm). \<not> sel e)"
proof -
  have "(\<forall>i \<in> {0..<length (elements frm)}. \<not> sel (elements frm ! i))
        = (\<forall>e \<in> set (elements frm). \<not> sel e)"
    by (auto simp: all_set_conv_all_nth)
  then show ?thesis
    by (simp add: find_elements_def filter_empty_conv)
qed

lemma set_find_elements:
  "set (find_elements sel frm) = {i. i < length (elements frm) \<and> sel (elements frm ! i)}"
  by (auto simp: find_elements_def)

lemma removeClass_each_frame:
  "fclasses (removeClass_each c idxs frm) = fclasses frm
   \<and> inModal (removeClass_each c idxs frm) = inModal frm
   \<and> length (elements (removeClass_each c idxs frm)) = length (elements frm)"
  unfolding removeClass_each_def
  by (induction idxs arbitrary: frm) simp_all

lemma removeClass_idem: "removeClass c (removeClass c cs) = removeClass c cs"
  by (simp add: removeClass_def)

lemma nth_removeClass_each:
  "j < length (elements frm) \<Longrightarrow>
   elements (removeClass_each c idxs frm) ! j =
     (if j \<in> set idxs then (elements frm ! j)\<lparr>classes := removeClass c (classes (elements frm ! j))\<rparr>
      else elements frm ! j)"
  unfolding removeClass_each_def
proof (induction idxs arbitrary: frm)
  case Nil
  then show ?case by simp
next
  case (Cons i idxs)
  let ?g = "\<lambda>e::element. e\<lparr>classes := removeClass c (classes e)\<rparr>"
  have len: "j < length (elements (update_field i ?g frm))" using Cons.prems by simp
  show ?case
    using Cons.IH [OF len] Cons.prems
    by (auto simp: nth_update_field removeClass_idem)
qed

text \<open>
  C1: \<open>formIsValid\<close> answers true exactly when no element of the form carries the
  class \<open>incorrect\<close> and the form carries the class \<open>validated\<close>; whenever some
  element is marked incorrect or the form lacks the flag, it answers false.
\<close>

theorem formIsValid_iff:
  "(formIsValid frm \<longleftrightarrow>
      (\<forall>e \<in> set (elements frm). \<not> hasClass DEFAULTS_incorrect (classes e))
      \<and> hasClass DEFAULTS_formIsValid (fclasses frm))
   \<and> ((\<exists>e \<in> set (elements frm). hasClass DEFAULTS_incorrect (classes e))
        \<or> \<not> hasClass DEFAULTS_formIsValid (fclasses frm) \<longrightarrow> \<not> formIsValid frm)"
  by (auto simp: formIsValid_def find_elements_empty)



theorem formIsValid_iff_witness:
  "formIsValid valid_form \<and> \<not> formIsValid marked_form
   \<and> \<not> formIsValid (valid_form\<lparr>fclasses := []\<rparr>)"
  using formIsValid_iff [of valid_form] formIsValid_iff [of marked_form]
    formIsValid_iff [of "valid_form\<lparr>fclasses := []\<rparr>"]
  by (simp add: valid_form_def marked_form_def text_field_def hasClass_def
        DEFAULTS_incorrect_def DEFAULTS_formIsValid_def)

lemma nth_removeIncorrectState:
  assumes "i < length (elements frm)"
  shows "elements (removeIncorrectState v frm) ! i =
          (if fieldsSelector (v_options v) (elements frm ! i)
           then (elements frm ! i)\<lparr>classes := removeClass DEFAULTS_incorrect (classes (elements frm ! i))\<rparr>
           else elements frm ! i)"
  using assms
  by (simp add: removeIncorrectState_def nth_removeClass_each set_find_elements)

lemma hasClass_removeClass:
  "hasClass c (removeClass d cs) = (c \<noteq> d \<and> hasClass c cs)"
  by (auto simp: hasClass_def removeClass_def)

text \<open>
  C10: \<open>removeIncorrectState\<close> changes nothing but the class \<open>incorrect\<close> of the
  elements that match the configured selector: the classes of the form (the valid flag
  among them), the number of elements, every other class, the data, the controls and
  the text of the error elements stay as they were.
\<close>

theorem removeIncorrectState_frame:
  "fclasses (removeIncorrectState v frm) = fclasses frm
   \<and> inModal (removeIncorrectState v frm) = inModal frm
   \<and> length (elements (removeIncorrectState v frm)) = length (elements frm)
   \<and> (\<forall>i < length (elements frm).
        elements (removeIncorrectState v frm) ! i =
          (if fieldsSelector (v_options v) (elements frm ! i)
           then (elements frm ! i)\<lparr>classes := removeClass DEFAULTS_incorrect (classes (elements frm ! i))\<rparr>
           else elements frm ! i)
        \<and> errors (elements (removeIncorrectState v frm) ! i) = errors (elements frm ! i)
        \<and> (\<forall>c. c \<noteq> DEFAULTS_incorrect \<longrightarrow>
              hasClass c (classes (elements (removeIncorrectState v frm) ! i))
                = hasClass c (classes (elements frm ! i))))"
proof -
  have "fclasses (removeIncorrectState v frm) = fclasses frm"
       "inModal (removeIncorrectState v frm) = inModal frm"
       "length (elements (removeIncorrectState v frm)) = length (elements frm)"
    by (simp_all add: removeIncorrectState_def removeClass_each_frame)
  moreover have "errors (elements (removeIncorrectState v frm) ! i) = errors (elements frm ! i)"
    if "i < length (elements frm)" for i
    using that by (simp add: nth_removeIncorrectState)
  moreover have "hasClass c (classes (elements (removeIncorrectState v frm) ! i))
                = hasClass c (classes (elements frm ! i))"
    if "i < length (elements frm)" "c \<noteq> DEFAULTS_incorrect" for i c
    using that by (simp add: nth_removeIncorrectState hasClass_removeClass)
  ultimately show ?thesis
    using nth_removeIncorrectState by blast
qed

theorem removeIncorrectState_frame_witness:
  "fclasses (removeIncorrectState en_validator marked_form) = [''validated'']
   \<and> classes (elements (removeIncorrectState en_validator marked_form) ! 0) = [''form-input'', ''wide'']
   \<and> errors (elements (removeIncorrectState en_validator marked_form) ! 0) = [''Fill in the field, please'']
   \<and> elements (removeIncorrectState en_validator marked_form) ! 1 = elements marked_form ! 1"
  using removeIncorrectState_frame [of en_validator marked_form, THEN conjunct1]
    removeIncorrectState_frame [of en_validator marked_form, THEN conjunct2, THEN conjunct2,
      THEN conjunct2, rule_format, of 0]
    removeIncorrectState_frame [of en_validator marked_form, THEN conjunct2, THEN conjunct2,
      THEN conjunct2, rule_format, of 1]
  by (simp add: marked_form_def text_field_def en_validator_def extend_options_def
        extend_value_def no_options_def hasClass_def removeClass_def DEFAULTS_incorrect_def)

subsection \<open>Marking a field\<close>

lemma field_of_nth: "i < length (elements frm) \<Longrightarrow> field_of frm i = elements frm ! i"
  by (simp add: field_of_def)

lemma throwError_frame [simp]:
  "fclasses (throwError field t frm) = fclasses frm"
  "inModal (throwError field t frm) = inModal frm"
  "length (elements (throwError field t frm)) = length (elements frm)"
  by (simp_all add: throwError_def)

lemma nth_throwError:
  "j < length (elements frm) \<Longrightarrow>
   elements (throwError field t frm) ! j =
     (if j = field
      then (elements frm ! j)\<lparr>classes := addClass DEFAULTS_incorrect (classes (elements frm ! j)),
                               errors := map (set_text t) (errors (elements frm ! j))\<rparr>
      else elements frm ! j)"
  by (simp add: throwError_def nth_update_field)

lemma hasClass_addClass: "hasClass c (addClass c cs)"
  by (simp add: hasClass_def addClass_def)

lemma throwError_marks:
  assumes "field < length (elements frm)"
  shows "hasClass DEFAULTS_incorrect (classes (elements (throwError field t frm) ! field))"
    and "errors (elements (throwError field t frm) ! field)
           = map (set_text t) (errors (elements frm ! field))"
  using assms by (simp_all add: nth_throwError hasClass_addClass)

lemma map_set_text_JStr: "map (set_text (JStr m)) xs = map (\<lambda>_. m) xs"
  by simp

lemma checkFieldValidness_empty:
  assumes "lookup_lang v = Some (Catalog c)"
  shows "checkFieldValidness v field cnd msg 0 frm = Inr (throwError field (JStr (emptyField c)) frm)"
  using assms by (simp add: checkFieldValidness_def Let_def and_then_def lang_prop_def)

lemma checkFieldValidness_fail:
  assumes "0 < n" and "\<not> truthy cnd"
  shows "checkFieldValidness v field cnd msg n frm
           = Inr (throwError field
                   (case data_get (edata (field_of frm field)) DEFAULTS_textDataName of
                      JStr s \<Rightarrow> if s \<noteq> [] then JStr s else msg
                    | _ \<Rightarrow> msg) frm)"
  using assms
  by (cases "data_get (edata (field_of frm field)) DEFAULTS_textDataName")
     (simp_all add: checkFieldValidness_def Let_def)

lemma checkFieldValidness_pass:
  assumes "0 < n" and "truthy cnd"
  shows "checkFieldValidness v field cnd msg n frm
           = Inr (frm\<lparr>fclasses := addClass DEFAULTS_formIsValid (fclasses frm)\<rparr>)"
  using assms by (simp add: checkFieldValidness_def Let_def)

lemma shown_text:
  "(\<forall>s. d = JStr s \<and> s \<noteq> [] \<longrightarrow>
       map (set_text (case d of JStr s \<Rightarrow> if s \<noteq> [] then JStr s else msg | _ \<Rightarrow> msg)) xs
         = map (\<lambda>_. s) xs)
   \<and> ((\<forall>s. d = JStr s \<longrightarrow> s = []) \<longrightarrow>
       map (set_text (case d of JStr s \<Rightarrow> if s \<noteq> [] then JStr s else msg | _ \<Rightarrow> msg)) xs
         = map (set_text msg) xs)"
  by (cases d) auto

lemma failed_field:
  assumes "field < length (elements frm)" and "0 < n" and "\<not> truthy cnd"
  shows "\<exists>frm'. checkFieldValidness v field cnd msg n frm = Inr frm'
              \<and> hasClass DEFAULTS_incorrect (classes (elements frm' ! field))
              \<and> fclasses frm' = fclasses frm
              \<and> (\<forall>s. data_get (edata (elements frm ! field)) DEFAULTS_textDataName = JStr s \<and> s \<noteq> []
                    \<longrightarrow> errors (elements frm' ! field) = map (\<lambda>_. s) (errors (elements frm ! field)))
              \<and> ((\<forall>s. data_get (edata (elements frm ! field)) DEFAULTS_textDataName = JStr s \<longrightarrow> s = [])
                    \<longrightarrow> errors (elements frm' ! field) = map (set_text msg) (errors (elements frm ! field)))"
  using assms(1) shown_text [of "data_get (edata (elements frm ! field)) DEFAULTS_textDataName" msg
      "errors (elements frm ! field)"]
  by (simp add: checkFieldValidness_fail [OF assms(2,3)] throwError_marks field_of_nth)

lemmas type_names =
  DEFAULTS_textType_def DEFAULTS_phoneType_def DEFAULTS_emailType_def DEFAULTS_radioType_def
  DEFAULTS_selectType_def

lemma validateTextField_length:
  assumes "lookup_lang v = Some (Catalog c)"
    and "val (if length (inputs (field_of frm field)) \<noteq> 0 then inputs (field_of frm field)
              else textareas (field_of frm field)) = Some s"
  shows "\<exists>cnd msg. validateTextField v field frm
                     = Inr \<lparr>condition = cnd, errorText = msg, length_fp = length s\<rparr>"
  using assms
  by (simp add: validateTextField_def Let_def and_then_def lang_prop_def
        lang_minMaxFieldLength_def)

lemma validateEmailField_length:
  assumes "val (inputs (field_of frm field)) = Some s"
  shows "\<exists>cnd. validateEmailField field frm
                     = Inr \<lparr>condition = cnd, errorText = JUndefined, length_fp = length s\<rparr>"
  using assms by (simp add: validateEmailField_def Let_def)

lemma empty_value_field:
  assumes l: "lookup_lang v = Some (Catalog c)"
    and t: "data_get (edata (field_of frm field)) DEFAULTS_dataType = JStr DEFAULTS_textType
            \<or> data_get (edata (field_of frm field)) DEFAULTS_dataType = JStr DEFAULTS_phoneType"
    and s: "val (if length (inputs (field_of frm field)) \<noteq> 0 then inputs (field_of frm field)
              else textareas (field_of frm field)) = Some []"
  shows "validateField v field frm = Inr (throwError field (JStr (emptyField c)) frm)"
proof -
  from validateTextField_length [OF l s] obtain cnd msg where
    r: "validateTextField v field frm = Inr \<lparr>condition = cnd, errorText = msg, length_fp = 0\<rparr>"
    by auto
  from t show ?thesis
  proof
    assume "data_get (edata (field_of frm field)) DEFAULTS_dataType = JStr DEFAULTS_textType"
    then show ?thesis
      using l r
      by (simp add: validateField_def Let_def and_then_def lang_prop_def type_names
            checkFieldValidness_empty)
  next
    assume "data_get (edata (field_of frm field)) DEFAULTS_dataType = JStr DEFAULTS_phoneType"
    then show ?thesis
      using l r
      by (simp add: validateField_def Let_def and_then_def lang_prop_def type_names
            checkFieldValidness_empty)
  qed
qed

lemma empty_value_email:
  assumes l: "lookup_lang v = Some (Catalog c)"
    and t: "data_get (edata (field_of frm field)) DEFAULTS_dataType = JStr DEFAULTS_emailType"
    and s: "val (inputs (field_of frm field)) = Some []"
  shows "validateField v field frm = Inr (throwError field (JStr (emptyField c)) frm)"
proof -
  from validateEmailField_length [OF s] obtain cnd where
    r: "validateEmailField field frm = Inr \<lparr>condition = cnd, errorText = JUndefined, length_fp = 0\<rparr>"
    by auto
  show ?thesis
    using l r t
    by (simp add: validateField_def Let_def and_then_def lang_prop_def type_names
          checkFieldValidness_empty)
qed

text \<open>
  C4: with a catalog for the configured language, a field whose \<open>valueLength\<close> is 0
  is marked incorrect and each of its error elements shows the catalog's \<open>emptyField\<close>
  message, whatever the condition, the computed text and the custom text are. The custom
  text (a non-empty string in \<open>data-validation-text\<close>) replaces the computed text only
  when the length is not 0 and the condition fails; when the condition holds no message
  is written and the form gets its valid flag. In particular a text, phone or email field
  whose control holds the empty string ends marked incorrect with \<open>emptyField\<close>.
\<close>

theorem checkFieldValidness_messages:
  assumes "lookup_lang v = Some (Catalog c)" and "field < length (elements frm)"
  shows "(\<exists>frm'. checkFieldValidness v field cnd msg 0 frm = Inr frm'
            \<and> hasClass DEFAULTS_incorrect (classes (elements frm' ! field))
            \<and> errors (elements frm' ! field) = map (\<lambda>_. emptyField c) (errors (elements frm ! field))
            \<and> fclasses frm' = fclasses frm)
       \<and> ((data_get (edata (elements frm ! field)) DEFAULTS_dataType = JStr DEFAULTS_textType
             \<or> data_get (edata (elements frm ! field)) DEFAULTS_dataType = JStr DEFAULTS_phoneType)
            \<and> val (if length (inputs (elements frm ! field)) \<noteq> 0 then inputs (elements frm ! field)
                      else textareas (elements frm ! field)) = Some []
          \<or> data_get (edata (elements frm ! field)) DEFAULTS_dataType = JStr DEFAULTS_emailType
            \<and> val (inputs (elements frm ! field)) = Some [] \<longrightarrow>
           (\<exists>frm'. validateField v field frm = Inr frm'
              \<and> hasClass DEFAULTS_incorrect (classes (elements frm' ! field))
              \<and> errors (elements frm' ! field) = map (\<lambda>_. emptyField c) (errors (elements frm ! field))
              \<and> fclasses frm' = fclasses frm))
       \<and> (0 < n \<and> \<not> truthy cnd \<longrightarrow>
           (\<exists>frm'. checkFieldValidness v field cnd msg n frm = Inr frm'
              \<and> hasClass DEFAULTS_incorrect (classes (elements frm' ! field))
              \<and> fclasses frm' = fclasses frm
              \<and> (\<forall>s. data_get (edata (elements frm ! field)) DEFAULTS_textDataName = JStr s \<and> s \<noteq> []
                    \<longrightarrow> errors (elements frm' ! field) = map (\<lambda>_. s) (errors (elements frm ! field)))
              \<and> ((\<forall>s. data_get (edata (elements frm ! field)) DEFAULTS_textDataName = JStr s \<longrightarrow> s = [])
                    \<longrightarrow> errors (elements frm' ! field) = map (set_text msg) (errors (elements frm ! field)))))
       \<and> (0 < n \<and> truthy cnd \<longrightarrow>
           checkFieldValidness v field cnd msg n frm
             = Inr (frm\<lparr>fclasses := addClass DEFAULTS_formIsValid (fclasses frm)\<rparr>))"
proof (intro conjI impI)
  show "\<exists>frm'. checkFieldValidness v field cnd msg 0 frm = Inr frm'
            \<and> hasClass DEFAULTS_incorrect (classes (elements frm' ! field))
            \<and> errors (elements frm' ! field) = map (\<lambda>_. emptyField c) (errors (elements frm ! field))
            \<and> fclasses frm' = fclasses frm"
    using assms(2) by (simp add: checkFieldValidness_empty [OF assms(1)] throwError_marks)
next
  assume "(data_get (edata (elements frm ! field)) DEFAULTS_dataType = JStr DEFAULTS_textType
             \<or> data_get (edata (elements frm ! field)) DEFAULTS_dataType = JStr DEFAULTS_phoneType)
            \<and> val (if length (inputs (elements frm ! field)) \<noteq> 0 then inputs (elements frm ! field)
                      else textareas (elements frm ! field)) = Some []
          \<or> data_get (edata (elements frm ! field)) DEFAULTS_dataType = JStr DEFAULTS_emailType
            \<and> val (inputs (elements frm ! field)) = Some []"
  moreover have fo: "field_of frm field = elements frm ! field"
    using assms(2) by (rule field_of_nth)
  ultimately have "validateField v field frm = Inr (throwError field (JStr (emptyField c)) frm)"
    using empty_value_field [OF assms(1), of frm field, unfolded fo]
      empty_value_email [OF assms(1), of frm field, unfolded fo]
    by blast
  then show "\<exists>frm'. validateField v field frm = Inr frm'
              \<and> hasClass DEFAULTS_incorrect (classes (elements frm' ! field))
              \<and> errors (elements frm' ! field) = map (\<lambda>_. emptyField c) (errors (elements frm ! field))
              \<and> fclasses frm' = fclasses frm"
    using assms(2) by (simp add: throwError_marks)
next
  assume "0 < n \<and> \<not> truthy cnd"
  then show "\<exists>frm'. checkFieldValidness v field cnd msg n frm = Inr frm'
              \<and> hasClass DEFAULTS_incorrect (classes (elements frm' ! field))
              \<and> fclasses frm' = fclasses frm
              \<and> (\<forall>s. data_get (edata (elements frm ! field)) DEFAULTS_textDataName = JStr s \<and> s \<noteq> []
                    \<longrightarrow> errors (elements frm' ! field) = map (\<lambda>_. s) (errors (elements frm ! field)))
              \<and> ((\<forall>s. data_get (edata (elements frm ! field)) DEFAULTS_textDataName = JStr s \<longrightarrow> s = [])
                    \<longrightarrow> errors (elements frm' ! field) = map (set_text msg) (errors (elements frm ! field)))"
    using failed_field [OF assms(2)] by blast
next
  assume "0 < n \<and> truthy cnd"
  then show "checkFieldValidness v field cnd msg n frm
             = Inr (frm\<lparr>fclasses := addClass DEFAULTS_formIsValid (fclasses frm)\<rparr>)"
    by (simp add: checkFieldValidness_pass)
qed

text \<open>
  C9: a field of type \<open>radio\<close> with no radio input that is both checked and visible,
  and without \<open>data-validation-text\<close>, is marked incorrect and its error elements show
  the catalog's \<open>emptyField\<close> message; the valid flag of the form is not touched.
\<close>

theorem radio_unchecked_shows_emptyField:
  assumes "lookup_lang v = Some (Catalog c)" and "field < length (elements frm)"
    and "data_get (edata (elements frm ! field)) DEFAULTS_dataType = JStr DEFAULTS_radioType"
    and "filter (\<lambda>r. ctype r = ''radio'' \<and> checked r \<and> visible r) (inputs (elements frm ! field)) = []"
    and "data_get (edata (elements frm ! field)) DEFAULTS_textDataName = JUndefined"
  shows "\<exists>frm'. validateField v field frm = Inr frm'
           \<and> hasClass DEFAULTS_incorrect (classes (elements frm' ! field))
           \<and> errors (elements frm' ! field) = map (\<lambda>_. emptyField c) (errors (elements frm ! field))
           \<and> fclasses frm' = fclasses frm"
proof -
  have radio: "validateRadioField field frm = False"
    using assms(2,4) by (simp add: validateRadioField_def field_of_nth)
  have "validateField v field frm
          = checkFieldValidness v field (JBool False) (JStr (emptyField c)) 1 frm"
    using assms(1,2,3) radio
    by (simp add: validateField_def Let_def and_then_def lang_prop_def field_of_nth type_names)
  also have "\<dots> = Inr (throwError field (JStr (emptyField c)) frm)"
    using assms(2,5) by (simp add: checkFieldValidness_def Let_def field_of_nth)
  finally show ?thesis
    using assms(2) by (simp add: throwError_marks)
qed

text \<open>
  C6, as the code has it: the length of a select field is always 1; the field is marked
  incorrect, with the catalog's \<open>incorrectSelect\<close> message or the custom text when one
  is set, exactly when the selected value is falsy or loosely equal to the number 0
  (\<open>value != 0\<close> is false: \<open>"0"\<close>, but also \<open>"00"\<close>, \<open>"0.0"\<close> or a blank string);
  for every other value the field is left as it is and the form gets its valid flag.
\<close>

theorem select_fails_iff_falsy_or_zero:
  assumes "lookup_lang v = Some (Catalog c)" and "field < length (elements frm)"
    and "data_get (edata (elements frm ! field)) DEFAULTS_dataType = JStr DEFAULTS_selectType"
    and "selected = (case selects (elements frm ! field) of [] \<Rightarrow> JUndefined | s # _ \<Rightarrow> s)"
  shows "length_fp (validateSelectField field frm) = 1
       \<and> (\<not> truthy selected \<or> loose_eq_zero selected \<longrightarrow>
           (\<exists>frm'. validateField v field frm = Inr frm'
              \<and> hasClass DEFAULTS_incorrect (classes (elements frm' ! field))
              \<and> fclasses frm' = fclasses frm
              \<and> (\<forall>s. data_get (edata (elements frm ! field)) DEFAULTS_textDataName = JStr s \<and> s \<noteq> []
                    \<longrightarrow> errors (elements frm' ! field) = map (\<lambda>_. s) (errors (elements frm ! field)))
              \<and> ((\<forall>s. data_get (edata (elements frm ! field)) DEFAULTS_textDataName = JStr s \<longrightarrow> s = [])
                    \<longrightarrow> errors (elements frm' ! field)
                          = map (\<lambda>_. incorrectSelect c) (errors (elements frm ! field)))))
       \<and> (truthy selected \<and> \<not> loose_eq_zero selected \<longrightarrow>
           validateField v field frm
             = Inr (frm\<lparr>fclasses := addClass DEFAULTS_formIsValid (fclasses frm)\<rparr>))"
proof -
  define cnd where "cnd = (if truthy selected then JBool (\<not> loose_eq_zero selected) else selected)"
  have sel: "validateSelectField field frm
               = \<lparr>condition = cnd, errorText = JUndefined, length_fp = 1\<rparr>"
    using assms(2,4) by (simp add: validateSelectField_def Let_def field_of_nth cnd_def)
  have run: "validateField v field frm
               = checkFieldValidness v field cnd (JStr (incorrectSelect c)) 1 frm"
    using assms(1,2,3)
    by (simp add: validateField_def Let_def and_then_def lang_prop_def field_of_nth type_names sel)
  have cnd: "truthy cnd = (truthy selected \<and> \<not> loose_eq_zero selected)"
    by (simp add: cnd_def)
  show ?thesis
  proof (intro conjI impI)
    show "length_fp (validateSelectField field frm) = 1" using sel by simp
  next
    assume "\<not> truthy selected \<or> loose_eq_zero selected"
    then have "\<not> truthy cnd" using cnd by blast
    from failed_field [OF assms(2) _ this, of 1 v "JStr (incorrectSelect c)"]
    show "\<exists>frm'. validateField v field frm = Inr frm'
              \<and> hasClass DEFAULTS_incorrect (classes (elements frm' ! field))
              \<and> fclasses frm' = fclasses frm
              \<and> (\<forall>s. data_get (edata (elements frm ! field)) DEFAULTS_textDataName = JStr s \<and> s \<noteq> []
                    \<longrightarrow> errors (elements frm' ! field) = map (\<lambda>_. s) (errors (elements frm ! field)))
              \<and> ((\<forall>s. data_get (edata (elements frm ! field)) DEFAULTS_textDataName = JStr s \<longrightarrow> s = [])
                    \<longrightarrow> errors (elements frm' ! field)
                          = map (\<lambda>_. incorrectSelect c) (errors (elements frm ! field)))"
      unfolding run by (simp add: map_set_text_JStr)
  next
    assume "truthy selected \<and> \<not> loose_eq_zero selected"
    then have "truthy cnd" using cnd by blast
    then show "validateField v field frm
             = Inr (frm\<lparr>fclasses := addClass DEFAULTS_formIsValid (fclasses frm)\<rparr>)"
      unfolding run by (simp add: checkFieldValidness_pass)
  qed
qed


lemmas instance_defs =
  en_validator_def extend_options_def extend_value_def extend_callback_def no_options_def
  lookup_lang_def

lemmas page_defs =
  field_of_def data_get_def data_of_def val_def text_field_def text_input_def

lemmas names_defs =
  DEFAULTS_incorrect_def DEFAULTS_formIsValid_def DEFAULTS_dataType_def DEFAULTS_textDataName_def
  DEFAULTS_dataCondition_def DEFAULTS_length_def DEFAULTS_equal_def
  DEFAULTS_requiredToValidate_def type_names

lemmas step_defs =
  validateField_def validateTextField_def validateSelectField_def validateRadioField_def
  checkFieldValidness_def throwError_def update_field_def and_then_def lang_prop_def
  hasClass_def addClass_def Let_def

lemma en_lookup: "lookup_lang en_validator = Some (Catalog en_catalog)"
  by (simp add: instance_defs)

theorem checkFieldValidness_messages_witness:
  "(case checkFieldValidness en_validator 0 (JBool True) (JStr ''computed'') 0 (custom_form [])
      of Inr f \<Rightarrow> hasClass DEFAULTS_incorrect (classes (elements f ! 0))
                  \<and> errors (elements f ! 0) = [''Fill in the field, please'']
       | Inl e \<Rightarrow> False)
   \<and> (case checkFieldValidness en_validator 0 (JBool False) (JStr ''computed'') 3 (custom_form ''bar'')
         of Inr f \<Rightarrow> hasClass DEFAULTS_incorrect (classes (elements f ! 0))
                     \<and> errors (elements f ! 0) = [''X'']
          | Inl e \<Rightarrow> False)
   \<and> checkFieldValidness en_validator 0 (JBool True) (JStr ''computed'') 3 (custom_form ''foo'')
        = Inr ((custom_form ''foo'')\<lparr>fclasses := [''validated'']\<rparr>)
   \<and> (case validateField en_validator 0 (custom_form [])
         of Inr f \<Rightarrow> hasClass DEFAULTS_incorrect (classes (elements f ! 0))
                     \<and> errors (elements f ! 0) = [''Fill in the field, please'']
          | Inl e \<Rightarrow> False)"
proof -
  have i: "0 < length (elements (custom_form s))" for s
    by (simp add: custom_form_def)
  from checkFieldValidness_messages [OF en_lookup i [of "[]"],
      where cnd = "JBool True" and msg = "JStr ''computed''" and n = 3]
    checkFieldValidness_messages [OF en_lookup i [of "''bar''"],
      where cnd = "JBool False" and msg = "JStr ''computed''" and n = 3]
    checkFieldValidness_messages [OF en_lookup i [of "''foo''"],
      where cnd = "JBool True" and msg = "JStr ''computed''" and n = 3]
  show ?thesis
    by (auto simp: custom_form_def page_defs names_defs en_catalog_def addClass_def)
qed

theorem radio_unchecked_shows_emptyField_witness:
  "(case validateField en_validator 0 (radio_form False True)
      of Inr f \<Rightarrow> hasClass DEFAULTS_incorrect (classes (elements f ! 0))
                  \<and> errors (elements f ! 0) = [''Fill in the field, please'']
       | Inl e \<Rightarrow> False)
   \<and> (case validateField en_validator 0 (radio_form True False)
      of Inr f \<Rightarrow> hasClass DEFAULTS_incorrect (classes (elements f ! 0))
                  \<and> errors (elements f ! 0) = [''Fill in the field, please'']
       | Inl e \<Rightarrow> False)"
proof -
  have "\<exists>f. validateField en_validator 0 (radio_form c vis) = Inr f
          \<and> hasClass DEFAULTS_incorrect (classes (elements f ! 0))
          \<and> errors (elements f ! 0) = [''Fill in the field, please'']"
    if "\<not> (c \<and> vis)" for c vis
    using that radio_unchecked_shows_emptyField [OF en_lookup, of 0 "radio_form c vis"]
    by (auto simp: radio_form_def data_get_def names_defs en_catalog_def)
  from this [of False True] this [of True False] show ?thesis by auto
qed

lemma string_is_zero_00: "string_is_zero ''00''"
  by (simp add: string_is_zero_def trim_def is_ws_def decimal_is_zero_def is_digit_def
        exponent_part_def digits_to_int_def digit_val_def Let_def)

text \<open>
  C6 as stated fails: the selected value \<open>"00"\<close> is truthy and is not the string
  \<open>"0"\<close>, yet the field is marked incorrect with the \<open>incorrectSelect\<close> message.
\<close>

theorem select_00_counterexample:
  "truthy (JStr ''00'') \<and> JStr ''00'' \<noteq> JStr ''0''
   \<and> (case validateField en_validator 0 (select_form (JStr ''00''))
         of Inr f \<Rightarrow> hasClass DEFAULTS_incorrect (classes (elements f ! 0))
                     \<and> errors (elements f ! 0) = [incorrectSelect en_catalog]
          | Inl e \<Rightarrow> False)"
  by (simp add: step_defs instance_defs page_defs names_defs select_form_def string_is_zero_00)


lemmas number_defs =
  string_is_zero_def trim_def is_ws_def decimal_is_zero_def nondecimal_is_zero_def is_digit_def
  exponent_part_def digits_to_int_def digit_val_def Let_def

theorem select_fails_iff_falsy_or_zero_witness:
  "validateField en_validator 0 (select_form (JStr ''5''))
     = Inr ((select_form (JStr ''5''))\<lparr>fclasses := [''validated'']\<rparr>)
   \<and> (case validateField en_validator 0 (select_form (JStr ''0''))
         of Inr f \<Rightarrow> hasClass DEFAULTS_incorrect (classes (elements f ! 0))
                     \<and> errors (elements f ! 0) = [''Please, select an option'']
          | Inl e \<Rightarrow> False)
   \<and> (case validateField en_validator 0 (select_form (JStr []))
         of Inr f \<Rightarrow> hasClass DEFAULTS_incorrect (classes (elements f ! 0))
                     \<and> errors (elements f ! 0) = [''Please, select an option'']
          | Inl e \<Rightarrow> False)"
proof -
  have i: "0 < length (elements (select_form x))" for x
    by (simp add: select_form_def)
  have t: "data_get (edata (elements (select_form x) ! 0)) DEFAULTS_dataType = JStr DEFAULTS_selectType"
    for x by (simp add: select_form_def data_get_def names_defs)
  have s: "x = (case selects (elements (select_form x) ! 0) of [] \<Rightarrow> JUndefined | s # _ \<Rightarrow> s)"
    for x by (simp add: select_form_def)
  have z: "\<not> string_is_zero ''5''" "string_is_zero ''0''"
    by (simp_all add: number_defs)
  from select_fails_iff_falsy_or_zero [OF en_lookup i t s, of "JStr ''5''"]
    select_fails_iff_falsy_or_zero [OF en_lookup i t s, of "JStr ''0''"]
    select_fails_iff_falsy_or_zero [OF en_lookup i t s, of "JStr []"]
  show ?thesis
    by (auto simp: z select_form_def data_get_def names_defs en_catalog_def addClass_def)
qed

lemma text_without_condition_fails:
  assumes "lookup_lang v = Some (Catalog c)" and "field < length (elements frm)"
    and "data_get (edata (elements frm ! field)) DEFAULTS_dataType = JStr DEFAULTS_textType"
    and "val (if length (inputs (elements frm ! field)) \<noteq> 0 then inputs (elements frm ! field)
              else textareas (elements frm ! field)) = Some s" and "s \<noteq> []"
    and "data_of (if length (inputs (elements frm ! field)) \<noteq> 0 then inputs (elements frm ! field)
              else textareas (elements frm ! field)) DEFAULTS_dataCondition = JUndefined"
  shows "\<exists>frm'. validateField v field frm = Inr frm'
           \<and> hasClass DEFAULTS_incorrect (classes (elements frm' ! field))
           \<and> fclasses frm' = fclasses frm"
proof -
  have "validateTextField v field frm
          = Inr \<lparr>condition = JUndefined, errorText = JUndefined, length_fp = length s\<rparr>"
    using assms(2,4,6)
    by (simp add: validateTextField_def Let_def and_then_def field_of_nth)
  then have "validateField v field frm = checkFieldValidness v field JUndefined JUndefined (length s) frm"
    using assms(1,2,3)
    by (simp add: validateField_def Let_def and_then_def lang_prop_def field_of_nth type_names)
  with failed_field [OF assms(2), of "length s" JUndefined v JUndefined] assms(5)
  show ?thesis by auto
qed

text \<open>
  C5 fails on the code: \<open>validateTextField\<close> returns \<open>condition: undefined\<close> when the
  input has no \<open>data-validation-condition\<close>, or the condition \<open>length\<close> without any
  bound, and \<open>validateField\<close> replaces its defaults (\<open>condition: true\<close>) by that result.
  A required text field holding \<open>abc\<close> is therefore marked incorrect, its error element
  keeps its old text and the form does not get its valid flag.
\<close>

theorem text_without_condition_is_marked:
  "(case validateField en_validator 0 (text_form ''abc'' [])
      of Inr f \<Rightarrow> hasClass DEFAULTS_incorrect (classes (elements f ! 0))
                  \<and> errors (elements f ! 0) = [''old'']
                  \<and> \<not> hasClass DEFAULTS_formIsValid (fclasses f)
       | Inl e \<Rightarrow> False)
   \<and> (case validateField en_validator 0 (text_form ''abc'' [(''validation-condition'', JStr ''length'')])
      of Inr f \<Rightarrow> hasClass DEFAULTS_incorrect (classes (elements f ! 0))
                  \<and> errors (elements f ! 0) = [''old'']
                  \<and> \<not> hasClass DEFAULTS_formIsValid (fclasses f)
       | Inl e \<Rightarrow> False)"
  by (simp add: step_defs instance_defs page_defs names_defs text_form_def en_catalog_def parseInt_def
        parseInt_string_def is_ws_def is_digit_def)

subsection \<open>The pass\<close>

lemma validateField_result:
  assumes "validateField v field frm = Inr frm'"
  shows "\<exists>cnd msg n. checkFieldValidness v field cnd msg n frm = Inr frm'"
  using assms
  unfolding validateField_def Let_def and_then_def
  by (auto split: sum.splits)

lemma checkFieldValidness_fclasses:
  assumes "checkFieldValidness v field cnd msg n frm = Inr frm'"
  shows "fclasses frm' = fclasses frm \<or> fclasses frm' = addClass DEFAULTS_formIsValid (fclasses frm)"
  using assms
  unfolding checkFieldValidness_def Let_def and_then_def lang_prop_def
  by (auto split: if_splits option.splits lang_entry.splits)

lemma hasClass_addClass_mono: "hasClass c cs \<Longrightarrow> hasClass c (addClass d cs)"
  by (simp add: hasClass_def addClass_def)

lemma validateField_keeps_flag:
  assumes "validateField v field frm = Inr frm'" and "hasClass c (fclasses frm)"
  shows "hasClass c (fclasses frm')"
  using validateField_result [OF assms(1)] checkFieldValidness_fclasses assms(2)
  by (metis hasClass_addClass_mono)

lemma each_field_keeps_flag:
  assumes "each_field idxs w = Inr w'" and "hasClass c (fclasses (page w))"
  shows "hasClass c (fclasses (page w'))"
  using assms
proof (induction idxs arbitrary: w)
  case Nil
  then show ?case by simp
next
  case (Cons i idxs)
  show ?case
  proof (cases "data_get (edata (field_of (page w) i)) ''validation'' = JStr DEFAULTS_requiredToValidate")
    case False
    with Cons show ?thesis by simp
  next
    case True
    with Cons.prems(1) obtain p where
      p: "validateField (self w) i (page w) = Inr p"
      and rest: "each_field idxs (record_call (ValidatedField i) (w\<lparr>page := p\<rparr>)) = Inr w'"
      by (auto split: sum.splits)
    have "hasClass c (fclasses (page (record_call (ValidatedField i) (w\<lparr>page := p\<rparr>))))"
      using validateField_keeps_flag [OF p Cons.prems(2)] by (simp add: record_call_def)
    from Cons.IH [OF rest this] show ?thesis .
  qed
qed

lemma each_field_calls:
  assumes "each_field idxs w = Inr w'"
  shows "self w' = self w
         \<and> (\<exists>es. calls w' = calls w @ es \<and> (\<forall>e \<in> set es. \<exists>i. e = ValidatedField i))"
  using assms
proof (induction idxs arbitrary: w)
  case Nil
  then show ?case by simp
next
  case (Cons i idxs)
  show ?case
  proof (cases "data_get (edata (field_of (page w) i)) ''validation'' = JStr DEFAULTS_requiredToValidate")
    case False
    with Cons show ?thesis by simp
  next
    case True
    with Cons.prems(1) obtain p where
      rest: "each_field idxs (record_call (ValidatedField i) (w\<lparr>page := p\<rparr>)) = Inr w'"
      by (auto split: sum.splits)
    from Cons.IH [OF rest] obtain es where
      "self w' = self w"
      "calls w' = (calls w @ [ValidatedField i]) @ es" "\<forall>e \<in> set es. \<exists>i. e = ValidatedField i"
      by (auto simp: record_call_def)
    then show ?thesis
      by (intro conjI exI [of _ "ValidatedField i # es"]) simp_all
  qed
qed

lemma count_list_fields:
  assumes "\<forall>e \<in> set es. \<exists>i. e = ValidatedField i"
  shows "count_list es (Called t) = 0"
  using assms by (induction es) auto

lemma evaluation_calls:
  assumes "validateAllFields (reset w) = Inr w0"
  shows "self w0 = self w"
    and "count_list (calls w0) (Called t) = count_list (calls w) (Called t)"
proof -
  from each_field_calls [of _ "reset w" w0] assms obtain es where
    es: "self w0 = self (reset w)" "calls w0 = calls (reset w) @ es"
        "\<forall>e \<in> set es. \<exists>i. e = ValidatedField i"
    unfolding validateAllFields_def Let_def by blast
  show "self w0 = self w" using es(1) by (simp add: reset_def record_call_def)
  show "count_list (calls w0) (Called t) = count_list (calls w) (Called t)"
    using es(2,3) by (simp add: reset_def record_call_def count_list_fields)
qed

lemma evaluation_keeps_flag:
  assumes "validateAllFields (reset w) = Inr w0" and "hasClass c (fclasses (page w))"
  shows "hasClass c (fclasses (page w0))"
proof -
  have "hasClass c (fclasses (page (reset w)))"
    using assms(2)
    by (simp add: reset_def record_call_def removeIncorrectState_def removeClass_each_frame)
  with assms(1) show ?thesis
    unfolding validateAllFields_def Let_def using each_field_keeps_flag by blast
qed

lemma quiet_callback:
  assumes run: "checkAndRunCallback tag cb w = Inr w'"
    and quiet: "\<And>f p r. cb = CbFunction f \<Longrightarrow> f p = Inr r \<Longrightarrow> snd r = ([], [])"
  shows "self w' = self w
         \<and> count_list (calls w') (Called t)
             = count_list (calls w) (Called t) + (if is_function cb \<and> t = tag then 1 else 0)"
proof (cases cb)
  case (CbFunction f)
  with run obtain r where r: "f (page w) = Inr r" and w': "w' = apply_effect tag r w"
    by (auto simp: checkAndRunCallback_def split: sum.splits)
  from quiet [OF CbFunction r] obtain p where "r = (p, [], [])"
    by (cases r) auto
  with w' CbFunction show ?thesis
    by (simp add: apply_effect_def)
next
  case (CbValue x)
  with run show ?thesis
    by (auto simp: checkAndRunCallback_def record_call_def split: if_splits)
qed

lemma pass_from_decision:
  assumes eval: "validateAllFields (reset w) = Inr w0"
    and before: "checkAndRunCallback BeforeValidation (beforeValidation (v_options (self w))) w0 = Inr w1"
  shows "runFormValidation w =
           and_then
             (if formIsValid (page w1) then formIsValidCallback (ajax (v_options (self w))) w1
              else Inr w1)
             (\<lambda>w2. checkAndRunCallback AfterValidation (afterValidation (v_options (self w2))) w2)"
  using before
  by (simp add: runFormValidation_def eval sendIfValidated_def Let_def and_then_def
        evaluation_calls(1) [OF eval])

lemmas hooks_defs =
  hooks_validator_def page_only_def extend_options_def extend_value_def extend_callback_def
  no_options_def lookup_lang_def

lemmas pass_defs =
  runFormValidation_def reset_def validateAllFields_def sendIfValidated_def
  formIsValidCallback_def checkAndRunCallback_def apply_effect_def
  record_call_def find_elements_def removeIncorrectState_def removeClass_each_def
  removeClass_def formIsValid_def

text \<open>
  C3 as stated fails: the reset leaves the class \<open>validated\<close> on the form. On a form
  that carries the flag from an earlier pass and has no required field, the pass evaluates
  nothing, finds the form valid and sends the request.
\<close>

theorem stale_flag_counterexample:
  "hasClass DEFAULTS_formIsValid (fclasses (removeIncorrectState en_validator stale_form))
   \<and> (case runFormValidation \<lparr>self = en_validator, page = stale_form, calls = []\<rparr>
         of Inr w \<Rightarrow> formIsValid (page w) \<and> calls w = [RemovedIncorrectState, AjaxSent []]
          | Inl e \<Rightarrow> False)"
  by (simp add: pass_defs step_defs instance_defs page_defs names_defs stale_form_def)

text \<open>
  C2 fails on the code: \<open>runFormValidation\<close> calls \<open>validateAllFields\<close> before
  \<open>sendIfValidated\<close>, and only the latter invokes \<open>beforeValidation\<close>. On a form with
  one valid required select the calls are: reset, evaluation of the field, the
  \<open>beforeValidation\<close> callback, the \<open>onValid\<close> callback, the request, the
  \<open>afterValidation\<close> callback. A \<open>beforeValidation\<close> callback that looks at the form
  finds it already evaluated: on a fresh form it sees the valid flag of this pass.
\<close>

theorem before_hook_runs_after_evaluation:
  "(case runFormValidation
           \<lparr>self = hooks_validator, page = select_form (JStr ''5''), calls = []\<rparr>
      of Inr w \<Rightarrow> calls w = [RemovedIncorrectState, ValidatedField 0, Called BeforeValidation,
                              Called OnValid, AjaxSent [], Called AfterValidation]
       | Inl e \<Rightarrow> False)
   \<and> (case runFormValidation
           \<lparr>self = observing_validator, page = select_form (JStr ''5''), calls = []\<rparr>
      of Inr w \<Rightarrow> fclasses (page w) = [''validated'', ''seen-valid'']
       | Inl e \<Rightarrow> False)"
  by (simp add: pass_defs step_defs hooks_defs observing_validator_def page_defs names_defs
        select_form_def number_defs)

text \<open>
  C8 as stated fails: a pass that raises does not reach \<open>afterValidation\<close>. With a
  required text field that has no input or textarea, \<open>value.length\<close> raises a TypeError
  during evaluation and the pass ends there, with the reset as its only call, although
  \<open>afterValidation\<close> is a function. Likewise on a valid form when \<open>onValid\<close> throws.
\<close>

theorem aborted_pass_counterexample:
  "is_function (afterValidation (v_options hooks_validator))
   \<and> validateField hooks_validator 0 (removeIncorrectState hooks_validator broken_form) = Inl TypeError
   \<and> runFormValidation \<lparr>self = hooks_validator, page = broken_form, calls = []\<rparr>
       = Inl (TypeError,
              \<lparr>self = hooks_validator, page = broken_form, calls = [RemovedIncorrectState]\<rparr>)
   \<and> count_list [RemovedIncorrectState] (Called AfterValidation) = 0
   \<and> is_function (afterValidation (v_options throwing_validator))
   \<and> (case runFormValidation
             \<lparr>self = throwing_validator, page = select_form (JStr ''5''), calls = []\<rparr>
         of Inl (e, w) \<Rightarrow> e = Thrown ''stop''
                           \<and> calls w = [RemovedIncorrectState, ValidatedField 0, Called OnValid]
          | Inr w \<Rightarrow> False)"
  by (simp add: pass_defs step_defs hooks_defs throwing_validator_def page_defs names_defs
        broken_form_def select_form_def number_defs)

text \<open>
  A callback that returns can still keep \<open>afterValidation\<close> from being called: it
  receives the instance and may clear the option, which \<open>sendIfValidated\<close> reads only
  afterwards.
\<close>

lemma callback_clears_afterValidation:
  "is_function (afterValidation (v_options clearing_validator))
   \<and> (case runFormValidation
             \<lparr>self = clearing_validator, page = select_form (JStr ''0''), calls = []\<rparr>
         of Inr w \<Rightarrow> calls w = [RemovedIncorrectState, ValidatedField 0, Called BeforeValidation]
          | Inl e \<Rightarrow> False)"
  by (simp add: pass_defs step_defs hooks_defs clearing_validator_def page_defs names_defs
        select_form_def number_defs en_catalog_def)

text \<open>
  C8, as the code has it: take a pass that ends without an exception and whose callbacks,
  when they return, have assigned no option and made no call of their own. If
  \<open>afterValidation\<close> is a function it is invoked exactly once, whether the form is valid
  or not, and otherwise not at all; \<open>onValid\<close> is invoked once if it is a function and
  \<open>formIsValid\<close> holds for the page as \<open>beforeValidation\<close> left it, and not at all
  otherwise.
\<close>

theorem hooks_of_a_completed_pass:
  assumes eval: "validateAllFields (reset w) = Inr w0"
    and before: "checkAndRunCallback BeforeValidation (beforeValidation (v_options (self w))) w0 = Inr w1"
    and fin: "runFormValidation w = Inr w'"
    and qb: "\<And>f p r. beforeValidation (v_options (self w)) = CbFunction f \<Longrightarrow> f p = Inr r
                      \<Longrightarrow> snd r = ([], [])"
    and qo: "\<And>f p r. onValid (v_options (self w)) = CbFunction f \<Longrightarrow> f p = Inr r
                      \<Longrightarrow> snd r = ([], [])"
    and qa: "\<And>f p r. afterValidation (v_options (self w)) = CbFunction f \<Longrightarrow> f p = Inr r
                      \<Longrightarrow> snd r = ([], [])"
  shows "count_list (calls w') (Called AfterValidation)
           = count_list (calls w) (Called AfterValidation)
             + (if is_function (afterValidation (v_options (self w))) then 1 else 0)
       \<and> count_list (calls w') (Called OnValid)
           = count_list (calls w) (Called OnValid)
             + (if is_function (onValid (v_options (self w))) \<and> formIsValid (page w1) then 1 else 0)"
proof -
  note s0 = evaluation_calls(1) [OF eval]
  note c0 = evaluation_calls(2) [OF eval]
  have s1: "self w1 = self w"
    using quiet_callback [OF before qb, where t = BeforeValidation] s0 by simp
  have c1: "count_list (calls w1) (Called t) = count_list (calls w) (Called t)"
    if "t \<noteq> BeforeValidation" for t
    using quiet_callback [OF before qb, where t = t] c0 [of t] that by simp
  from fin pass_from_decision [OF eval before] obtain w2 where
    mid: "(if formIsValid (page w1) then formIsValidCallback (ajax (v_options (self w))) w1
           else Inr w1) = Inr w2"
    and after: "checkAndRunCallback AfterValidation (afterValidation (v_options (self w2))) w2 = Inr w'"
    by (auto simp: and_then_def split: sum.splits)
  have w2: "self w2 = self w
            \<and> count_list (calls w2) (Called AfterValidation)
                = count_list (calls w) (Called AfterValidation)
            \<and> count_list (calls w2) (Called OnValid)
                = count_list (calls w) (Called OnValid)
                  + (if is_function (onValid (v_options (self w))) \<and> formIsValid (page w1)
                     then 1 else 0)"
  proof (cases "formIsValid (page w1)")
    case False
    with mid have "w2 = w1" by simp
    with False s1 c1 show ?thesis by simp
  next
    case True
    with mid obtain w1a where
      on: "checkAndRunCallback OnValid (onValid (v_options (self w))) w1 = Inr w1a"
      and w2': "w2 = (case ajax (v_options (self w)) of
                        Some a \<Rightarrow> record_call (AjaxSent a) w1a | None \<Rightarrow> w1a)"
      by (auto simp: formIsValidCallback_def and_then_def s1 split: sum.splits)
    have same_self: "self w2 = self w1a"
      using w2' by (cases "ajax (v_options (self w))") (simp_all add: record_call_def)
    have same: "count_list (calls w2) (Called t) = count_list (calls w1a) (Called t)" for t
      using w2' by (cases "ajax (v_options (self w))") (simp_all add: record_call_def)
    from quiet_callback [OF on qo, where t = AfterValidation]
      quiet_callback [OF on qo, where t = OnValid]
      same [of AfterValidation] same [of OnValid] same_self s1 c1 True
    show ?thesis by simp
  qed
  from w2 have after': "checkAndRunCallback AfterValidation (afterValidation (v_options (self w))) w2
                          = Inr w'"
    using after by simp
  from quiet_callback [OF after' qa, where t = AfterValidation] quiet_callback [OF after' qa, where t = OnValid] w2
  show ?thesis by simp
qed


lemmas option_defs =
  extend_options_def extend_value_def extend_callback_def no_options_def page_only_def

theorem hooks_of_a_completed_pass_witness:
  "(case runFormValidation
           \<lparr>self = after_only_validator, page = select_form (JStr ''5''), calls = []\<rparr>
      of Inr w \<Rightarrow> count_list (calls w) (Called AfterValidation) = 1
                  \<and> count_list (calls w) (Called OnValid) = 0
       | Inl e \<Rightarrow> False)
   \<and> (case runFormValidation
           \<lparr>self = throwing_validator, page = select_form (JStr ''0''), calls = []\<rparr>
      of Inr w \<Rightarrow> count_list (calls w) (Called AfterValidation) = 1
                  \<and> count_list (calls w) (Called OnValid) = 0
       | Inl e \<Rightarrow> False)
   \<and> (case runFormValidation
           \<lparr>self = hooks_validator, page = select_form (JStr ''5''), calls = []\<rparr>
      of Inr w \<Rightarrow> count_list (calls w) (Called AfterValidation) = 1
                  \<and> count_list (calls w) (Called OnValid) = 1
       | Inl e \<Rightarrow> False)"
proof -
  define passed where "passed = (select_form (JStr ''5''))\<lparr>fclasses := [''validated'']\<rparr>"
  define failed where
    "failed = throwError 0 (JStr ''Please, select an option'') (select_form (JStr ''0''))"
  define evaluated where "evaluated = [RemovedIncorrectState, ValidatedField 0]"
  have valid: "formIsValid passed" "\<not> formIsValid failed"
    by (simp_all add: passed_def failed_def pass_defs step_defs select_form_def field_of_def
          names_defs)
  have first: "(case runFormValidation
                   \<lparr>self = after_only_validator, page = select_form (JStr ''5''), calls = []\<rparr>
      of Inr w \<Rightarrow> count_list (calls w) (Called AfterValidation) = 1
                  \<and> count_list (calls w) (Called OnValid) = 0
       | Inl e \<Rightarrow> False)"
  proof -
    let ?v = after_only_validator
    let ?w = "\<lparr>self = ?v, page = select_form (JStr ''5''), calls = []\<rparr>"
    have o: "beforeValidation (v_options ?v) = CbValue JNull"
            "onValid (v_options ?v) = CbValue JNull"
            "afterValidation (v_options ?v) = CbFunction (\<lambda>p. Inr (p, [], []))"
      by (simp_all add: after_only_validator_def option_defs)
    have e: "validateAllFields (reset ?w) = Inr \<lparr>self = ?v, page = passed, calls = evaluated\<rparr>"
      by (simp add: pass_defs step_defs after_only_validator_def option_defs lookup_lang_def
            page_defs names_defs select_form_def number_defs passed_def evaluated_def)
    have b: "checkAndRunCallback BeforeValidation (beforeValidation (v_options (self ?w)))
               \<lparr>self = ?v, page = passed, calls = evaluated\<rparr>
             = Inr \<lparr>self = ?v, page = passed, calls = evaluated\<rparr>"
      by (simp add: o checkAndRunCallback_def)
    have "\<exists>w'. runFormValidation ?w = Inr w'"
      by (simp add: pass_defs step_defs after_only_validator_def option_defs lookup_lang_def
            page_defs names_defs select_form_def number_defs)
    then obtain w' where d: "runFormValidation ?w = Inr w'" by blast
    have "count_list (calls w') (Called AfterValidation)
           = count_list (calls ?w) (Called AfterValidation)
             + (if is_function (afterValidation (v_options (self ?w))) then 1 else 0)
       \<and> count_list (calls w') (Called OnValid)
           = count_list (calls ?w) (Called OnValid)
             + (if is_function (onValid (v_options (self ?w)))
                   \<and> formIsValid (page \<lparr>self = ?v, page = passed, calls = evaluated\<rparr>)
                then 1 else 0)"
    proof (rule hooks_of_a_completed_pass [OF e b d])
      show "snd r = ([], [])" if "beforeValidation (v_options (self ?w)) = CbFunction f" for f and r :: effect
        using that by (simp add: o)
      show "snd r = ([], [])" if "onValid (v_options (self ?w)) = CbFunction f" for f and r :: effect
        using that by (simp add: o)
      show "snd r = ([], [])"
        if "afterValidation (v_options (self ?w)) = CbFunction f" "f p = Inr r" for f p r
        using that by (auto simp: o)
    qed
    then show ?thesis
      by (simp add: d o)
  qed
  have second: "(case runFormValidation
                   \<lparr>self = throwing_validator, page = select_form (JStr ''0''), calls = []\<rparr>
      of Inr w \<Rightarrow> count_list (calls w) (Called AfterValidation) = 1
                  \<and> count_list (calls w) (Called OnValid) = 0
       | Inl e \<Rightarrow> False)"
  proof -
    let ?v = throwing_validator
    let ?w = "\<lparr>self = ?v, page = select_form (JStr ''0''), calls = []\<rparr>"
    have o: "beforeValidation (v_options ?v) = CbValue JNull"
            "onValid (v_options ?v) = CbFunction (\<lambda>p. Inl (Thrown ''stop'', p, [], []))"
            "afterValidation (v_options ?v) = CbFunction (\<lambda>p. Inr (p, [], []))"
      by (simp_all add: throwing_validator_def option_defs)
    have e: "validateAllFields (reset ?w) = Inr \<lparr>self = ?v, page = failed, calls = evaluated\<rparr>"
      by (simp add: pass_defs step_defs throwing_validator_def option_defs lookup_lang_def
            page_defs names_defs select_form_def number_defs failed_def evaluated_def
            en_catalog_def)
    have b: "checkAndRunCallback BeforeValidation (beforeValidation (v_options (self ?w)))
               \<lparr>self = ?v, page = failed, calls = evaluated\<rparr>
             = Inr \<lparr>self = ?v, page = failed, calls = evaluated\<rparr>"
      by (simp add: o checkAndRunCallback_def)
    have "\<exists>w'. runFormValidation ?w = Inr w'"
      by (simp add: pass_defs step_defs throwing_validator_def option_defs lookup_lang_def
            page_defs names_defs select_form_def number_defs en_catalog_def)
    then obtain w' where d: "runFormValidation ?w = Inr w'" by blast
    have "count_list (calls w') (Called AfterValidation)
           = count_list (calls ?w) (Called AfterValidation)
             + (if is_function (afterValidation (v_options (self ?w))) then 1 else 0)
       \<and> count_list (calls w') (Called OnValid)
           = count_list (calls ?w) (Called OnValid)
             + (if is_function (onValid (v_options (self ?w)))
                   \<and> formIsValid (page \<lparr>self = ?v, page = failed, calls = evaluated\<rparr>)
                then 1 else 0)"
    proof (rule hooks_of_a_completed_pass [OF e b d])
      show "snd r = ([], [])" if "beforeValidation (v_options (self ?w)) = CbFunction f" for f and r :: effect
        using that by (simp add: o)
      show "snd r = ([], [])"
        if "onValid (v_options (self ?w)) = CbFunction f" "f p = Inr r" for f p and r :: effect
        using that by (auto simp: o)
      show "snd r = ([], [])"
        if "afterValidation (v_options (self ?w)) = CbFunction f" "f p = Inr r" for f p r
        using that by (auto simp: o)
    qed
    then show ?thesis
      by (simp add: d o valid)
  qed
  have third: "(case runFormValidation
                   \<lparr>self = hooks_validator, page = select_form (JStr ''5''), calls = []\<rparr>
      of Inr w \<Rightarrow> count_list (calls w) (Called AfterValidation) = 1
                  \<and> count_list (calls w) (Called OnValid) = 1
       | Inl e \<Rightarrow> False)"
  proof -
    let ?v = hooks_validator
    let ?w = "\<lparr>self = ?v, page = select_form (JStr ''5''), calls = []\<rparr>"
    have o: "beforeValidation (v_options ?v) = CbFunction (\<lambda>p. Inr (p, [], []))"
            "onValid (v_options ?v) = CbFunction (\<lambda>p. Inr (p, [], []))"
            "afterValidation (v_options ?v) = CbFunction (\<lambda>p. Inr (p, [], []))"
      by (simp_all add: hooks_validator_def option_defs)
    have e: "validateAllFields (reset ?w) = Inr \<lparr>self = ?v, page = passed, calls = evaluated\<rparr>"
      by (simp add: pass_defs step_defs hooks_validator_def option_defs lookup_lang_def
            page_defs names_defs select_form_def number_defs passed_def evaluated_def)
    have b: "checkAndRunCallback BeforeValidation (beforeValidation (v_options (self ?w)))
               \<lparr>self = ?v, page = passed, calls = evaluated\<rparr>
             = Inr \<lparr>self = ?v, page = passed, calls = evaluated @ [Called BeforeValidation]\<rparr>"
      by (simp add: o checkAndRunCallback_def apply_effect_def)
    have "\<exists>w'. runFormValidation ?w = Inr w'"
      by (simp add: pass_defs step_defs hooks_validator_def option_defs lookup_lang_def
            page_defs names_defs select_form_def number_defs)
    then obtain w' where d: "runFormValidation ?w = Inr w'" by blast
    have "count_list (calls w') (Called AfterValidation)
           = count_list (calls ?w) (Called AfterValidation)
             + (if is_function (afterValidation (v_options (self ?w))) then 1 else 0)
       \<and> count_list (calls w') (Called OnValid)
           = count_list (calls ?w) (Called OnValid)
             + (if is_function (onValid (v_options (self ?w)))
                   \<and> formIsValid (page \<lparr>self = ?v, page = passed,
                                         calls = evaluated @ [Called BeforeValidation]\<rparr>)
                then 1 else 0)"
    proof (rule hooks_of_a_completed_pass [OF e b d])
      show "snd r = ([], [])"
        if "beforeValidation (v_options (self ?w)) = CbFunction f" "f p = Inr r" for f p r
        using that by (auto simp: o)
      show "snd r = ([], [])"
        if "onValid (v_options (self ?w)) = CbFunction f" "f p = Inr r" for f p r
        using that by (auto simp: o)
      show "snd r = ([], [])"
        if "afterValidation (v_options (self ?w)) = CbFunction f" "f p = Inr r" for f p r
        using that by (auto simp: o)
    qed
    then show ?thesis
      by (simp add: d o valid)
  qed
  from first second third show ?thesis by simp
qed

lemma callback_keeps_flag:
  assumes "checkAndRunCallback tag cb w0 = Inr w1" and "hasClass c (fclasses (page w0))"
    and "\<And>f r. cb = CbFunction f \<Longrightarrow> f (page w0) = Inr r \<Longrightarrow> hasClass c (fclasses (fst r))"
  shows "hasClass c (fclasses (page w1))"
proof (cases cb)
  case (CbFunction f)
  with assms(1) obtain r where r: "f (page w0) = Inr r" and w1: "w1 = apply_effect tag r w0"
    by (auto simp: checkAndRunCallback_def split: sum.splits)
  from assms(3) [OF CbFunction r] w1 show ?thesis
    by (cases r) (simp add: apply_effect_def)
next
  case (CbValue x)
  with assms(1,2) show ?thesis
    by (auto simp: checkAndRunCallback_def record_call_def split: if_splits)
qed

text \<open>
  C3, as the code has it: at the start of a pass the class \<open>incorrect\<close> is removed
  from every element that matches the selector, and the valid flag of the form is left as
  it was. A flag set before the pass is still set when the evaluation of the fields ends
  and, unless the \<open>beforeValidation\<close> callback itself removes it, on the page for which
  \<open>formIsValid\<close> takes the decision of the pass; the decision then depends on the
  incorrect marks alone.
\<close>

theorem reset_clears_marks_keeps_flag:
  "(\<forall>i < length (elements (page w)). fieldsSelector (v_options (self w)) (elements (page w) ! i) \<longrightarrow>
       \<not> hasClass DEFAULTS_incorrect
           (classes (elements (removeIncorrectState (self w) (page w)) ! i)))
   \<and> hasClass DEFAULTS_formIsValid (fclasses (removeIncorrectState (self w) (page w)))
       = hasClass DEFAULTS_formIsValid (fclasses (page w))
   \<and> (\<forall>w0. hasClass DEFAULTS_formIsValid (fclasses (page w))
          \<and> validateAllFields (reset w) = Inr w0
          \<longrightarrow> hasClass DEFAULTS_formIsValid (fclasses (page w0)))
   \<and> (\<forall>w0 w1. hasClass DEFAULTS_formIsValid (fclasses (page w))
          \<and> validateAllFields (reset w) = Inr w0
          \<and> checkAndRunCallback BeforeValidation (beforeValidation (v_options (self w))) w0 = Inr w1
          \<and> (\<forall>f r. beforeValidation (v_options (self w)) = CbFunction f \<and> f (page w0) = Inr r
                 \<longrightarrow> hasClass DEFAULTS_formIsValid (fclasses (fst r)))
          \<longrightarrow> hasClass DEFAULTS_formIsValid (fclasses (page w1))
              \<and> formIsValid (page w1)
                  = (\<forall>e \<in> set (elements (page w1)). \<not> hasClass DEFAULTS_incorrect (classes e))
              \<and> runFormValidation w =
                  and_then
                    (if formIsValid (page w1)
                     then formIsValidCallback (ajax (v_options (self w))) w1 else Inr w1)
                    (\<lambda>w2. checkAndRunCallback AfterValidation
                             (afterValidation (v_options (self w2))) w2))"
proof (intro conjI allI impI)
  fix i
  assume "i < length (elements (page w))"
    "fieldsSelector (v_options (self w)) (elements (page w) ! i)"
  then show "\<not> hasClass DEFAULTS_incorrect
                 (classes (elements (removeIncorrectState (self w) (page w)) ! i))"
    by (simp add: nth_removeIncorrectState hasClass_removeClass)
next
  show "hasClass DEFAULTS_formIsValid (fclasses (removeIncorrectState (self w) (page w)))
       = hasClass DEFAULTS_formIsValid (fclasses (page w))"
    by (simp add: removeIncorrectState_def removeClass_each_frame)
next
  fix w0
  assume "hasClass DEFAULTS_formIsValid (fclasses (page w))
          \<and> validateAllFields (reset w) = Inr w0"
  then show "hasClass DEFAULTS_formIsValid (fclasses (page w0))"
    using evaluation_keeps_flag by blast
next
  fix w0 w1
  assume a: "hasClass DEFAULTS_formIsValid (fclasses (page w))
          \<and> validateAllFields (reset w) = Inr w0
          \<and> checkAndRunCallback BeforeValidation (beforeValidation (v_options (self w))) w0 = Inr w1
          \<and> (\<forall>f r. beforeValidation (v_options (self w)) = CbFunction f \<and> f (page w0) = Inr r
                 \<longrightarrow> hasClass DEFAULTS_formIsValid (fclasses (fst r)))"
  then have f0: "hasClass DEFAULTS_formIsValid (fclasses (page w0))"
    using evaluation_keeps_flag by blast
  from a have before: "checkAndRunCallback BeforeValidation (beforeValidation (v_options (self w))) w0
                         = Inr w1" by blast
  have f1: "hasClass DEFAULTS_formIsValid (fclasses (page w1))"
    using callback_keeps_flag [OF before f0] a by blast
  {
    show "hasClass DEFAULTS_formIsValid (fclasses (page w1))" by (rule f1)
  next
    show "formIsValid (page w1)
            = (\<forall>e \<in> set (elements (page w1)). \<not> hasClass DEFAULTS_incorrect (classes e))"
      using f1 by (simp add: formIsValid_def find_elements_empty)
  next
    show "runFormValidation w =
            and_then
              (if formIsValid (page w1)
               then formIsValidCallback (ajax (v_options (self w))) w1 else Inr w1)
              (\<lambda>w2. checkAndRunCallback AfterValidation
                       (afterValidation (v_options (self w2))) w2)"
      using a pass_from_decision [of w w0 w1] by blast
  }
qed

theorem reset_clears_marks_keeps_flag_witness:
  "\<not> hasClass DEFAULTS_incorrect
        (classes (elements (removeIncorrectState en_validator marked_form) ! 0))
   \<and> hasClass DEFAULTS_formIsValid (fclasses (removeIncorrectState en_validator marked_form))
   \<and> (case validateAllFields
              (reset \<lparr>self = hooks_validator, page = flagged_select_form (JStr ''0''), calls = []\<rparr>)
         of Inr w0 \<Rightarrow> calls w0 = [RemovedIncorrectState, ValidatedField 0]
                       \<and> hasClass DEFAULTS_formIsValid (fclasses (page w0))
          | Inl e \<Rightarrow> False)
   \<and> (case and_then
              (validateAllFields
                 (reset \<lparr>self = hooks_validator, page = flagged_select_form (JStr ''0''),
                         calls = []\<rparr>))
              (checkAndRunCallback BeforeValidation (beforeValidation (v_options hooks_validator)))
         of Inr w1 \<Rightarrow> calls w1 = [RemovedIncorrectState, ValidatedField 0, Called BeforeValidation]
                       \<and> hasClass DEFAULTS_formIsValid (fclasses (page w1))
                       \<and> \<not> formIsValid (page w1)
                       \<and> runFormValidation
                           \<lparr>self = hooks_validator, page = flagged_select_form (JStr ''0''),
                            calls = []\<rparr>
                         = checkAndRunCallback AfterValidation
                             (afterValidation (v_options hooks_validator)) w1
          | Inl e \<Rightarrow> False)
   \<and> (case and_then
              (validateAllFields
                 (reset \<lparr>self = hooks_validator, page = flagged_select_form (JStr ''5''),
                         calls = []\<rparr>))
              (checkAndRunCallback BeforeValidation (beforeValidation (v_options hooks_validator)))
         of Inr w1 \<Rightarrow> calls w1 = [RemovedIncorrectState, ValidatedField 0, Called BeforeValidation]
                       \<and> hasClass DEFAULTS_formIsValid (fclasses (page w1))
                       \<and> formIsValid (page w1)
          | Inl e \<Rightarrow> False)"
proof -
  let ?v = hooks_validator
  let ?m = "\<lparr>self = en_validator, page = marked_form, calls = []\<rparr>"
  let ?f = "\<lparr>self = ?v, page = flagged_select_form (JStr ''0''), calls = []\<rparr>"
  let ?g = "\<lparr>self = ?v, page = flagged_select_form (JStr ''5''), calls = []\<rparr>"
  define failed where
    "failed = throwError 0 (JStr ''Please, select an option'') (flagged_select_form (JStr ''0''))"
  let ?ev = "[RemovedIncorrectState, ValidatedField 0]"
  let ?fa = "\<lparr>self = ?v, page = failed, calls = ?ev\<rparr>"
  let ?fb = "\<lparr>self = ?v, page = failed, calls = ?ev @ [Called BeforeValidation]\<rparr>"
  let ?ga = "\<lparr>self = ?v, page = flagged_select_form (JStr ''5''), calls = ?ev\<rparr>"
  let ?gb = "\<lparr>self = ?v, page = flagged_select_form (JStr ''5''),
              calls = ?ev @ [Called BeforeValidation]\<rparr>"
  note t = reset_clears_marks_keeps_flag
  have o: "beforeValidation (v_options ?v) = CbFunction (\<lambda>p. Inr (p, [], []))"
          "afterValidation (v_options ?v) = CbFunction (\<lambda>p. Inr (p, [], []))"
    by (simp_all add: hooks_validator_def option_defs)
  have sel: "0 < length (elements (page ?m))
             \<and> fieldsSelector (v_options (self ?m)) (elements (page ?m) ! 0)"
    by (simp add: instance_defs marked_form_def text_field_def hasClass_def)
  have flag: "hasClass DEFAULTS_formIsValid (fclasses marked_form)"
             "hasClass DEFAULTS_formIsValid (fclasses (flagged_select_form x))" for x
    by (simp_all add: marked_form_def flagged_select_form_def select_form_def
          hasClass_def names_defs)
  have ef: "validateAllFields (reset ?f) = Inr ?fa"
    by (simp add: pass_defs step_defs hooks_validator_def option_defs lookup_lang_def page_defs
          names_defs flagged_select_form_def select_form_def number_defs failed_def
          en_catalog_def)
  have eg: "validateAllFields (reset ?g) = Inr ?ga"
    by (simp add: pass_defs step_defs hooks_validator_def option_defs lookup_lang_def page_defs
          names_defs flagged_select_form_def select_form_def number_defs)
  have bf: "checkAndRunCallback BeforeValidation (beforeValidation (v_options ?v)) ?fa = Inr ?fb"
   and bg: "checkAndRunCallback BeforeValidation (beforeValidation (v_options ?v)) ?ga = Inr ?gb"
    by (simp_all add: checkAndRunCallback_def apply_effect_def o)
  have k: "\<forall>f r. beforeValidation (v_options ?v) = CbFunction f \<and> f failed = Inr r
                 \<longrightarrow> hasClass DEFAULTS_formIsValid (fclasses (fst r))"
          "\<forall>f r. beforeValidation (v_options ?v) = CbFunction f
                 \<and> f (flagged_select_form (JStr ''5'')) = Inr r
                 \<longrightarrow> hasClass DEFAULTS_formIsValid (fclasses (fst r))"
    using flag(2) by (auto simp: o failed_def)
  have marks: "\<not> (\<forall>e \<in> set (elements failed). \<not> hasClass DEFAULTS_incorrect (classes e))"
              "\<forall>e \<in> set (elements (flagged_select_form (JStr ''5''))).
                  \<not> hasClass DEFAULTS_incorrect (classes e)"
    by (simp_all add: failed_def flagged_select_form_def select_form_def
          throwError_def update_field_def field_of_def hasClass_def addClass_def names_defs)
  have one: "\<not> hasClass DEFAULTS_incorrect
                  (classes (elements (removeIncorrectState en_validator marked_form) ! 0))"
    using t [of ?m, THEN conjunct1, THEN spec [where x = 0]] sel by simp
  have two: "hasClass DEFAULTS_formIsValid (fclasses (removeIncorrectState en_validator marked_form))"
    using t [of ?m, THEN conjunct2, THEN conjunct1] flag(1) by simp
  have three: "hasClass DEFAULTS_formIsValid (fclasses failed)"
    using t [of ?f, THEN conjunct2, THEN conjunct2, THEN conjunct1, THEN spec [where x = ?fa]]
      flag(2) ef by simp
  have four: "hasClass DEFAULTS_formIsValid (fclasses failed)
              \<and> formIsValid failed
                  = (\<forall>e \<in> set (elements failed). \<not> hasClass DEFAULTS_incorrect (classes e))
              \<and> runFormValidation ?f
                  = checkAndRunCallback AfterValidation (afterValidation (v_options ?v)) ?fb"
    using t [of ?f, THEN conjunct2, THEN conjunct2, THEN conjunct2,
             THEN spec [where x = ?fa], THEN spec [where x = ?fb]]
      flag(2) ef bf k marks(1) by (simp add: and_then_def)
  have five: "hasClass DEFAULTS_formIsValid (fclasses (flagged_select_form (JStr ''5'')))
              \<and> formIsValid (flagged_select_form (JStr ''5''))
                  = (\<forall>e \<in> set (elements (flagged_select_form (JStr ''5''))).
                        \<not> hasClass DEFAULTS_incorrect (classes e))"
    using t [of ?g, THEN conjunct2, THEN conjunct2, THEN conjunct2,
             THEN spec [where x = ?ga], THEN spec [where x = ?gb]]
      flag(2) eg bg k by simp
  from one two three four five marks show ?thesis
    by (simp add: ef eg bf bg and_then_def)
qed

text \<open>
  C7, as the code has it: construction succeeds for every language tag and stores the tag
  as given (\<open>en\<close> when none is given); the catalog is looked up by the tag in each
  evaluation, and the tags \<open>en\<close> and \<open>ru\<close> find their catalogs.
\<close>

theorem construction_never_fails:
  "\<exists>v. Validator frm opts = Inr v
       \<and> lang (v_options v) = (case u_lang opts of None \<Rightarrow> ''en'' | Some t \<Rightarrow> t)
       \<and> (lang (v_options v) = ''en'' \<longrightarrow> lookup_lang v = Some (Catalog en_catalog))
       \<and> (lang (v_options v) = ''ru'' \<longrightarrow> lookup_lang v = Some (Catalog ru_catalog))"
  by (simp add: Validator_def init_def extend_options_def extend_value_def lookup_lang_def)

theorem construction_never_fails_witness:
  "Validator valid_form no_options = Inr en_validator
   \<and> lookup_lang en_validator = Some (Catalog en_catalog)
   \<and> (case Validator valid_form (no_options\<lparr>u_lang := Some ''ru''\<rparr>)
         of Inr v \<Rightarrow> lang (v_options v) = ''ru'' \<and> lookup_lang v = Some (Catalog ru_catalog)
          | Inl e \<Rightarrow> False)"
proof -
  have "Validator valid_form no_options = Inr en_validator"
    by (simp add: Validator_def init_def instance_defs)
  with construction_never_fails [of valid_form no_options]
    construction_never_fails [of valid_form "no_options\<lparr>u_lang := Some ''ru''\<rparr>"]
  show ?thesis by (auto simp: no_options_def)
qed

text \<open>
  C7 as stated fails: construction with the tag \<open>de\<close> returns an instance; the missing
  catalog only shows when a field is evaluated, as a TypeError.
\<close>

theorem unknown_language_counterexample:
  "(case Validator valid_form (no_options\<lparr>u_lang := Some ''de''\<rparr>)
      of Inr v \<Rightarrow> lang (v_options v) = ''de'' \<and> lookup_lang v = None
                  \<and> validateField v 0 valid_form = Inl TypeError
       | Inl e \<Rightarrow> False)"
  by (simp add: Validator_def init_def instance_defs validateField_def lang_prop_def and_then_def
        Let_def inherited_names_def)

end
